theory Spec2Isabelle
  imports Main
begin

section \<open>JavaScript values\<close>

text \<open>
  A JavaScript string is a sequence of UTF-16 code units; \<open>js\<close> turns a literal of
  8-bit characters into one.
\<close>

type_synonym jsstring = "nat list"

definition js :: "string \<Rightarrow> jsstring" where
  "js s = map of_char s"

text \<open>
  The request body, the parsed provider bodies and the objects handed to
  \<^verbatim>\<open>JSON.stringify\<close> and \<^verbatim>\<open>res.send\<close> are JavaScript values of JSON shape.
  \<open>JUndefined\<close> is what a destructured name holds when the body has no such member.
  A number is kept as the text the language converts it to, which is all the handler
  and its libraries do with one: \<open>JNum (js ''0'')\<close> is zero, of either sign.
\<close>

datatype jsval =
    JUndefined
  | JNull
  | JBool bool
  | JNum jsstring
  | JStr jsstring
  | JArr "jsval list"
  | JObj "(jsstring \<times> jsval) list"

text \<open>
  \<^verbatim>\<open>!v\<close> is \<open>\<not> truthy v\<close>: undefined, null, false, zero, NaN and the empty
  string are falsy.
\<close>

fun truthy :: "jsval \<Rightarrow> bool" where
  "truthy JUndefined = False"
| "truthy JNull = False"
| "truthy (JBool b) = b"
| "truthy (JNum n) = (n \<noteq> js ''0'' \<and> n \<noteq> js ''NaN'')"
| "truthy (JStr s) = (s \<noteq> [])"
| "truthy (JArr xs) = True"
| "truthy (JObj kvs) = True"

section \<open>Errors\<close>

text \<open>
  A thrown value is an \<^verbatim>\<open>Error\<close> object; the handler reads its \<^verbatim>\<open>type\<close> and
  \<^verbatim>\<open>text\<close> properties, which are undefined unless somebody assigned them.
\<close>

record js_error =
  err_name :: jsstring
  err_message :: jsstring
  err_type :: jsval
  err_text :: jsval

text \<open>\<^verbatim>\<open>new Error(msg)\<close>\<close>

definition new_Error :: "jsstring \<Rightarrow> js_error" where
  "new_Error msg =
     \<lparr>err_name = js ''Error'', err_message = msg, err_type = JUndefined,
      err_text = JUndefined\<rparr>"

text \<open>
  The errors of the language and the libraries. A \<^verbatim>\<open>TypeError\<close> has no \<^verbatim>\<open>type\<close> and no
  \<^verbatim>\<open>text\<close>. node-fetch rejects with a \<^verbatim>\<open>FetchError\<close> whose \<^verbatim>\<open>type\<close> is
  \<^verbatim>\<open>'system'\<close> (no reply) or \<^verbatim>\<open>'invalid-json'\<close> (a body that \<^verbatim>\<open>response.json()\<close>
  cannot parse); its message names the URL and the reason and is abridged to the type
  here (no response shows it). Writing to a response that is already sent is Node's
  \<^verbatim>\<open>ERR_HTTP_HEADERS_SENT\<close>.
\<close>

definition TypeError :: "jsstring \<Rightarrow> js_error" where
  "TypeError msg =
     \<lparr>err_name = js ''TypeError'', err_message = msg, err_type = JUndefined,
      err_text = JUndefined\<rparr>"

definition FetchError :: "string \<Rightarrow> js_error" where
  "FetchError ty =
     \<lparr>err_name = js ''FetchError'', err_message = js ty, err_type = JStr (js ty),
      err_text = JUndefined\<rparr>"

definition HeadersSentError :: js_error where
  "HeadersSentError =
     \<lparr>err_name = js ''Error [ERR_HTTP_HEADERS_SENT]'',
      err_message = js ''Cannot set headers after they are sent to the client'',
      err_type = JUndefined, err_text = JUndefined\<rparr>"

text \<open>\<^verbatim>\<open>err.toString()\<close>\<close>

definition err_toString :: "js_error \<Rightarrow> jsstring" where
  "err_toString e = err_name e @ js '': '' @ err_message e"

text \<open>
  \<^verbatim>\<open>v.k\<close> for the member names the handler reads (\<^verbatim>\<open>access_token\<close>,
  \<^verbatim>\<open>join_url\<close>, \<^verbatim>\<open>message\<close>): a TypeError on null and undefined, the member of an
  object, undefined on every other value.
\<close>

definition cannot_read :: "string \<Rightarrow> jsstring \<Rightarrow> js_error" where
  "cannot_read what k =
     TypeError (js ''Cannot read properties of '' @ js what @ js '' (reading '' @ [39] @ k
                @ [39] @ js '')'')"

fun get_prop :: "jsval \<Rightarrow> jsstring \<Rightarrow> js_error + jsval" where
  "get_prop JUndefined k = Inl (cannot_read ''undefined'' k)"
| "get_prop JNull k = Inl (cannot_read ''null'' k)"
| "get_prop (JObj kvs) k = Inr (case map_of kvs k of None \<Rightarrow> JUndefined | Some v \<Rightarrow> v)"
| "get_prop v k = Inr JUndefined"

section \<open>Conversion to a string\<close>

text \<open>
  The conversion that a template literal and \<^verbatim>\<open>RegExp.prototype.test\<close> apply to a
  value. An object of JSON shape inherits \<^verbatim>\<open>toString\<close> and converts to
  \<^verbatim>\<open>[object Object]\<close>, unless it has a member named \<^verbatim>\<open>toString\<close> of its own: that
  member is not a function, the inherited \<^verbatim>\<open>valueOf\<close> returns the object, and the
  conversion throws a TypeError. An array is its elements joined by commas, null and
  undefined elements empty, each other element converted in turn.
\<close>

definition cannot_convert :: js_error where
  "cannot_convert = TypeError (js ''Cannot convert object to primitive value'')"

fun ToString :: "jsval \<Rightarrow> js_error + jsstring"
  and join_elements :: "jsval list \<Rightarrow> js_error + jsstring" where
  "ToString JUndefined = Inr (js ''undefined'')"
| "ToString JNull = Inr (js ''null'')"
| "ToString (JBool b) = Inr (if b then js ''true'' else js ''false'')"
| "ToString (JNum n) = Inr n"
| "ToString (JStr s) = Inr s"
| "ToString (JArr xs) = join_elements xs"
| "ToString (JObj kvs) =
     (if map_of kvs (js ''toString'') \<noteq> None then Inl cannot_convert
      else Inr (js ''[object Object]''))"
| "join_elements [] = Inr []"
| "join_elements (x # xs) =
     (case (if x = JNull \<or> x = JUndefined then Inr [] else ToString x) of
        Inl e \<Rightarrow> Inl e
      | Inr s \<Rightarrow>
          if xs = [] then Inr s
          else (case join_elements xs of Inl e \<Rightarrow> Inl e | Inr t \<Rightarrow> Inr (s @ 44 # t)))"

section \<open>The email pattern\<close>

text \<open>
  \<^verbatim>\<open>/^[^\s@]+@[^\s@]+\.[^\s@]+$/\<close> as a regular expression over two kinds of atom: a
  literal code unit and the class \<^verbatim>\<open>[^\s@]\<close>. \<open>is_space\<close> is \<^verbatim>\<open>\s\<close>: the white
  space and line terminator code units of the language.
\<close>

datatype atom = Lit nat | NotSpaceAt

definition is_space :: "nat \<Rightarrow> bool" where
  "is_space c =
     (c \<in> {9, 10, 11, 12, 13, 32, 160, 5760, 8232, 8233, 8239, 8287, 12288, 65279}
      \<or> (8192 \<le> c \<and> c \<le> 8202))"

fun atom_matches :: "atom \<Rightarrow> nat \<Rightarrow> bool" where
  "atom_matches (Lit a) c = (a = c)"
| "atom_matches NotSpaceAt c = (\<not> is_space c \<and> c \<noteq> 64)"

datatype regex =
    Fail
  | Empty
  | Atom atom
  | Alt regex regex
  | Seq regex regex
  | Star regex

definition Plus :: "regex \<Rightarrow> regex" where
  "Plus r = Seq r (Star r)"

fun nullable :: "regex \<Rightarrow> bool" where
  "nullable Fail = False"
| "nullable Empty = True"
| "nullable (Atom a) = False"
| "nullable (Alt r s) = (nullable r \<or> nullable s)"
| "nullable (Seq r s) = (nullable r \<and> nullable s)"
| "nullable (Star r) = True"

text \<open>What is left of the expression after reading one code unit.\<close>

fun after :: "nat \<Rightarrow> regex \<Rightarrow> regex" where
  "after c Fail = Fail"
| "after c Empty = Fail"
| "after c (Atom a) = (if atom_matches a c then Empty else Fail)"
| "after c (Alt r s) = Alt (after c r) (after c s)"
| "after c (Seq r s) =
     (if nullable r then Alt (Seq (after c r) s) (after c s) else Seq (after c r) s)"
| "after c (Star r) = Seq (after c r) (Star r)"

text \<open>\<^verbatim>\<open>^r$\<close> tested on a string: the whole string has to match.\<close>

definition regex_test :: "regex \<Rightarrow> jsstring \<Rightarrow> bool" where
  "regex_test r s = nullable (foldl (\<lambda>q c. after c q) r s)"

text \<open>The code units of \<^verbatim>\<open>@\<close> and \<^verbatim>\<open>.\<close> are 64 and 46.\<close>

definition emailRegex :: regex where
  "emailRegex =
     Seq (Plus (Atom NotSpaceAt))
       (Seq (Atom (Lit 64))
         (Seq (Plus (Atom NotSpaceAt))
           (Seq (Atom (Lit 46))
             (Plus (Atom NotSpaceAt)))))"

text \<open>
  What the pattern means, independently of the matcher: the strings of an expression,
  and a non-empty run of code units of the class \<^verbatim>\<open>[^\s@]\<close>.
\<close>

inductive matches :: "regex \<Rightarrow> jsstring \<Rightarrow> bool" where
  matches_Empty: "matches Empty []"
| matches_Atom: "atom_matches a c \<Longrightarrow> matches (Atom a) [c]"
| matches_AltL: "matches r w \<Longrightarrow> matches (Alt r s) w"
| matches_AltR: "matches s w \<Longrightarrow> matches (Alt r s) w"
| matches_Seq: "matches r u \<Longrightarrow> matches s v \<Longrightarrow> matches (Seq r s) (u @ v)"
| matches_StarNil: "matches (Star r) []"
| matches_StarStep: "matches r u \<Longrightarrow> matches (Star r) v \<Longrightarrow> matches (Star r) (u @ v)"

definition plain :: "jsstring \<Rightarrow> bool" where
  "plain w = (w \<noteq> [] \<and> (\<forall>x \<in> set w. \<not> is_space x \<and> x \<noteq> 64))"

section \<open>The handler's world\<close>

text \<open>
  The outbound calls. The token call and the list calls are built from configured
  constants only (account id, client id and secret, API key, server prefix, list ids),
  taken to be text that node-fetch accepts; they are left out of the call, and the two
  list ids stand for the configured \<^verbatim>\<open>MAILCHIMP_LIST_ID\<close> and
  \<^verbatim>\<open>MAILCHIMP_LIST_ID_2\<close>. A call keeps what the request decides: for the registrant
  call its URL and its Authorization header, and for the registrant and list calls the
  object handed to \<^verbatim>\<open>JSON.stringify\<close>.
\<close>

datatype list_id = MAILCHIMP_LIST_ID | MAILCHIMP_LIST_ID_2

datatype call =
    TokenRequest
  | RegistrantRequest jsstring jsstring jsval
  | MemberRequest list_id jsval

text \<open>
  \<open>RegistrantRequest url authorization payload\<close> is the POST to \<open>url\<close> with the header
  \<^verbatim>\<open>Authorization: authorization\<close>; \<open>MemberRequest l payload\<close> is the POST to
  \<^verbatim>\<open>/3.0/lists/${l}/members\<close>.
\<close>

text \<open>The two template literals of the registrant call, after the conversions.\<close>

definition registrants_url :: "jsstring \<Rightarrow> jsstring" where
  "registrants_url eventId = js ''https://api.zoom.us/v2/webinars/'' @ eventId @ js ''/registrants''"

definition bearer :: "jsstring \<Rightarrow> jsstring" where
  "bearer zoomAccessToken = js ''Bearer '' @ zoomAccessToken"

text \<open>
  node-fetch refuses a header value with a code unit outside tab, \<^verbatim>\<open>\x20-\x7e\<close> and
  \<^verbatim>\<open>\x80-\xff\<close>: the fetch rejects with a TypeError and no request is sent. The URL is
  normalized, which escapes what the path holds, and is never refused.
\<close>

definition legal_header_value :: "jsstring \<Rightarrow> bool" where
  "legal_header_value s =
     list_all (\<lambda>c. c = 9 \<or> (32 \<le> c \<and> c \<le> 126) \<or> (128 \<le> c \<and> c \<le> 255)) s"

fun headers_legal :: "call \<Rightarrow> bool" where
  "headers_legal TokenRequest = True"
| "headers_legal (RegistrantRequest url authorization payload) =
     legal_header_value authorization"
| "headers_legal (MemberRequest l payload) = True"

definition illegal_header :: "call \<Rightarrow> js_error" where
  "illegal_header c =
     TypeError ((case c of RegistrantRequest url authorization payload \<Rightarrow> authorization
                         | _ \<Rightarrow> [])
                @ js '' is not a legal HTTP header value'')"

text \<open>A reply of a provider, as node-fetch presents it: \<^verbatim>\<open>ok\<close> is a 2xx status.\<close>

record response =
  status :: nat
  body_text :: jsstring

definition ok :: "response \<Rightarrow> bool" where
  "ok r = (200 \<le> status r \<and> status r < 300)"

datatype fetch_result = Reply response | NoReply

text \<open>
  What the providers answer in one invocation. Each stage is called at most once, so
  one reply per stage covers every behaviour of the providers.
\<close>

record env =
  token_reply :: fetch_result
  zoom_reply :: fetch_result
  mailchimp_reply :: fetch_result
  mailchimp2_reply :: fetch_result

record request =
  http_method :: jsstring
  body :: "jsstring \<rightharpoonup> jsval"

text \<open>
  A name destructured from \<^verbatim>\<open>req.body\<close>. The body is an object, as the platform's
  body parser leaves it; a member the body does not have is undefined.
\<close>

definition field :: "request \<Rightarrow> string \<Rightarrow> jsval" where
  "field req k = (case body req (js k) of None \<Rightarrow> JUndefined | Some v \<Rightarrow> v)"

record http_response =
  rstatus :: nat
  rheaders :: "(jsstring \<times> jsstring) list"
  rbody :: jsval

text \<open>
  The state an invocation changes: the outbound calls issued so far, in order, and the
  Express response object (its status code, the headers set by the handler, and the
  response once it is sent). The body of a sent response is the value handed to
  \<^verbatim>\<open>send\<close> or \<^verbatim>\<open>json\<close>. Console output is not part of the state.
\<close>

record world =
  calls :: "call list"
  statusCode :: nat
  headers :: "(jsstring \<times> jsstring) list"
  sent :: "http_response option"

definition fresh :: world where
  "fresh = \<lparr>calls = [], statusCode = 200, headers = [], sent = None\<rparr>"

text \<open>A step either throws or returns a value, and leaves a world.\<close>

type_synonym 'a action = "world \<Rightarrow> (js_error + 'a) \<times> world"

definition return :: "'a \<Rightarrow> 'a action" where
  "return a w = (Inr a, w)"

definition throw :: "js_error \<Rightarrow> 'a action" where
  "throw e w = (Inl e, w)"

definition lift :: "js_error + 'a \<Rightarrow> 'a action" where
  "lift r w = (r, w)"

definition andThen :: "'a action \<Rightarrow> ('a \<Rightarrow> 'b action) \<Rightarrow> 'b action" where
  "andThen m f w = (case m w of (Inl e, w') \<Rightarrow> (Inl e, w') | (Inr a, w') \<Rightarrow> f a w')"

text \<open>\<^verbatim>\<open>try { m } catch (error) { h error }\<close>\<close>

definition try_catch :: "'a action \<Rightarrow> (js_error \<Rightarrow> 'a action) \<Rightarrow> 'a action" where
  "try_catch m h w = (case m w of (Inl e, w') \<Rightarrow> h e w' | (Inr a, w') \<Rightarrow> (Inr a, w'))"

subsection \<open>The Express response object\<close>

text \<open>
  \<^verbatim>\<open>res.status(n)\<close> assigns the status code. \<^verbatim>\<open>res.set\<close> gives a header its value,
  in place of the one it had. \<^verbatim>\<open>res.set\<close>, \<^verbatim>\<open>res.send\<close> and \<^verbatim>\<open>res.json\<close> write
  headers, which Node refuses once the response is sent: the first response is the one
  the caller gets.
\<close>

fun set_header :: "jsstring \<Rightarrow> jsstring \<Rightarrow> (jsstring \<times> jsstring) list \<Rightarrow> (jsstring \<times> jsstring) list"
  where
  "set_header k v [] = [(k, v)]"
| "set_header k v ((k', v') # hs) =
     (if k' = k then (k, v) # hs else (k', v') # set_header k v hs)"

definition res_status :: "nat \<Rightarrow> world \<Rightarrow> world" where
  "res_status n w = w\<lparr>statusCode := n\<rparr>"

definition res_set :: "string \<Rightarrow> string \<Rightarrow> unit action" where
  "res_set k v w =
     (if sent w \<noteq> None then (Inl HeadersSentError, w)
      else (Inr (), w\<lparr>headers := set_header (js k) (js v) (headers w)\<rparr>))"

definition res_send :: "jsval \<Rightarrow> unit action" where
  "res_send b w =
     (if sent w \<noteq> None then (Inl HeadersSentError, w)
      else (Inr (),
        w\<lparr>sent := Some \<lparr>rstatus = statusCode w, rheaders = headers w, rbody = b\<rparr>\<rparr>))"

text \<open>\<^verbatim>\<open>res.status(n).send(b)\<close> and \<^verbatim>\<open>res.status(n).json(b)\<close>\<close>

definition respond :: "nat \<Rightarrow> jsval \<Rightarrow> unit action" where
  "respond n b w = res_send b (res_status n w)"

subsection \<open>Outbound calls\<close>

text \<open>
  \<^verbatim>\<open>await fetch(...)\<close>: a request with an illegal header is refused before it is sent;
  otherwise the call is issued, and the reply comes back or the fetch rejects.
\<close>

definition fetch :: "call \<Rightarrow> fetch_result \<Rightarrow> response action" where
  "fetch c r w =
     (if \<not> headers_legal c then (Inl (illegal_header c), w)
      else
        let w' = w\<lparr>calls := calls w @ [c]\<rparr>
        in case r of NoReply \<Rightarrow> (Inl (FetchError ''system''), w')
                   | Reply resp \<Rightarrow> (Inr resp, w'))"

text \<open>
  \<^verbatim>\<open>await response.json()\<close>. \<^verbatim>\<open>JSON.parse\<close> is the parameter \<open>parse\<close>, with
  \<open>None\<close> for a text that is not JSON.
\<close>

definition response_json :: "(jsstring \<Rightarrow> jsval option) \<Rightarrow> response \<Rightarrow> js_error + jsval" where
  "response_json parse r =
     (case parse (body_text r) of None \<Rightarrow> Inl (FetchError ''invalid-json'') | Some v \<Rightarrow> Inr v)"

section \<open>getZoomAccessToken\<close>

definition getZoomAccessToken :: "(jsstring \<Rightarrow> jsval option) \<Rightarrow> env \<Rightarrow> jsval action" where
  "getZoomAccessToken parse e =
     andThen (fetch TokenRequest (token_reply e)) (\<lambda>response.
       if \<not> ok response then
         throw (new_Error (js ''Failed to fetch Zoom access token: '' @ body_text response))
       else
         andThen (lift (response_json parse response)) (\<lambda>data.
           lift (get_prop data (js ''access_token''))))"

section \<open>The catch block\<close>

text \<open>
  \<open>errorInfo\<close> is \<^verbatim>\<open>error.text\<close> unless that is a string that parses and has a truthy
  \<^verbatim>\<open>message\<close>; a parse error and a TypeError on \<^verbatim>\<open>parsedError.message\<close> end in the
  inner catch, which assigns \<^verbatim>\<open>error.text\<close> again.
\<close>

definition errorInfo :: "(jsstring \<Rightarrow> jsval option) \<Rightarrow> js_error \<Rightarrow> jsval" where
  "errorInfo parse error =
     (case err_text error of
        JStr t \<Rightarrow>
          (case parse t of
             None \<Rightarrow> err_text error
           | Some parsedError \<Rightarrow>
               (case get_prop parsedError (js ''message'') of
                  Inl e \<Rightarrow> err_text error
                | Inr m \<Rightarrow> if truthy m then m else err_text error))
      | v \<Rightarrow> err_text error)"

definition error_body :: "(jsstring \<Rightarrow> jsval option) \<Rightarrow> js_error \<Rightarrow> jsval" where
  "error_body parse error =
     JObj [(js ''message'', JStr (js ''Internal Server Error'')),
           (js ''info'', errorInfo parse error),
           (js ''errorAt'', err_type error)]"

definition missing_fields_body :: jsval where
  "missing_fields_body =
     JObj [(js ''message'', JStr (js ''Request Error'')),
           (js ''info'', JStr (js ''Missing required fields'')),
           (js ''errorAt'', JStr (js ''requestBody''))]"

definition invalid_email_body :: jsval where
  "invalid_email_body =
     JObj [(js ''message'', JStr (js ''Request Error'')),
           (js ''info'', JStr (js ''Invalid email format'')),
           (js ''errorAt'', JStr (js ''requestBody''))]"

text \<open>
  The error objects the handler builds: \<^verbatim>\<open>new Error(...)\<close> with \<^verbatim>\<open>type\<close> and
  \<^verbatim>\<open>text\<close> assigned.
\<close>

definition tagged_error :: "string \<Rightarrow> string \<Rightarrow> jsstring \<Rightarrow> js_error" where
  "tagged_error prefix ty errorText =
     (new_Error (js prefix @ errorText))\<lparr>err_type := JStr (js ty), err_text := JStr errorText\<rparr>"

section \<open>register, base variant (functions/index.js)\<close>

text \<open>
  The try block. The arguments of the registrant fetch are evaluated before the call:
  the two template literals convert \<open>eventId\<close> and the token to strings, and either
  conversion can throw.
\<close>

definition try_base ::
  "(jsstring \<Rightarrow> jsval option) \<Rightarrow> env \<Rightarrow> jsval \<Rightarrow> jsval \<Rightarrow> jsval \<Rightarrow> jsval \<Rightarrow> jsval \<Rightarrow> jsval
     \<Rightarrow> unit action" where
  "try_base parse e firstName lastName email company jobTitle eventId =
     andThen (getZoomAccessToken parse e) (\<lambda>zoomAccessToken.
     andThen (lift (ToString eventId)) (\<lambda>eventId_string.
     andThen (lift (ToString zoomAccessToken)) (\<lambda>zoomAccessToken_string.
     andThen (fetch (RegistrantRequest (registrants_url eventId_string)
                (bearer zoomAccessToken_string)
                (JObj [(js ''email'', email),
                       (js ''first_name'', firstName),
                       (js ''last_name'', lastName),
                       (js ''org'', company)]))
              (zoom_reply e)) (\<lambda>zoomResponse.
     andThen (if \<not> ok zoomResponse
              then throw (tagged_error ''Zoom API error: '' ''zoom'' (body_text zoomResponse))
              else return ()) (\<lambda>_.
     andThen (lift (response_json parse zoomResponse)) (\<lambda>zoomData.
     andThen (\<lambda>w. andThen (lift (get_prop zoomData (js ''join_url''))) (\<lambda>join_url.
                res_send (JObj [(js ''message'', JStr (js ''Registration successful'')),
                                (js ''join_url'', join_url)]))
              (res_status 200 w)) (\<lambda>_.
     andThen (fetch (MemberRequest MAILCHIMP_LIST_ID
                (JObj [(js ''email_address'', email),
                       (js ''status_if_new'', JStr (js ''subscribed'')),
                       (js ''merge_fields'',
                          JObj [(js ''FNAME'', firstName),
                                (js ''LNAME'', lastName),
                                (js ''COMPANY'', company),
                                (js ''JOBTITLE'', jobTitle)])]))
              (mailchimp_reply e)) (\<lambda>mailchimpResponse.
       if \<not> ok mailchimpResponse \<and> status mailchimpResponse \<noteq> 400
       then throw (tagged_error ''Mailchimp API error: '' ''mailchimp''
                     (body_text mailchimpResponse))
       else return ()))))))))"

definition catch_base :: "(jsstring \<Rightarrow> jsval option) \<Rightarrow> js_error \<Rightarrow> unit action" where
  "catch_base parse error = respond 500 (error_body parse error)"

text \<open>
  The two body checks are outside the try block: what the conversion of \<open>email\<close> in
  \<^verbatim>\<open>emailRegex.test(email)\<close> throws is caught by nobody.
\<close>

definition register_base :: "(jsstring \<Rightarrow> jsval option) \<Rightarrow> env \<Rightarrow> request \<Rightarrow> unit action" where
  "register_base parse e req =
     (if http_method req \<noteq> js ''POST'' then respond 405 (JStr (js ''Method Not Allowed''))
      else
        let firstName = field req ''firstName'';
            lastName = field req ''lastName'';
            email = field req ''email'';
            company = field req ''company'';
            jobTitle = field req ''jobTitle'';
            eventId = field req ''eventId'';
            identifier = field req ''identifier''
        in
          if \<not> truthy firstName \<or> \<not> truthy lastName \<or> \<not> truthy email
             \<or> \<not> truthy eventId \<or> \<not> truthy company
          then respond 500 missing_fields_body
          else
            andThen (lift (ToString email)) (\<lambda>email_string.
              if \<not> regex_test emailRegex email_string
              then respond 400 invalid_email_body
              else try_catch
                     (try_base parse e firstName lastName email company jobTitle eventId)
                     (catch_base parse)))"

section \<open>register, extended variant (two lists, CORS)\<close>

text \<open>
  The object for the two lists is the same; \<open>region\<close> is the variable after the
  assignment of line 95.
\<close>

definition member_ext ::
  "jsval \<Rightarrow> jsval \<Rightarrow> jsval \<Rightarrow> jsval \<Rightarrow> jsval \<Rightarrow> jsval \<Rightarrow> jsval \<Rightarrow> jsval \<Rightarrow> jsval \<Rightarrow> jsval
     \<Rightarrow> jsval" where
  "member_ext firstName lastName email company jobTitle city state region zipCode phone =
     JObj [(js ''email_address'', email),
           (js ''status'', JStr (js ''subscribed'')),
           (js ''status_if_new'', JStr (js ''subscribed'')),
           (js ''merge_fields'',
              JObj [(js ''FNAME'', firstName),
                    (js ''LNAME'', lastName),
                    (js ''COMPANY'', company),
                    (js ''JOBTITLE'', jobTitle),
                    (js ''CITY'', city),
                    (js ''PHONE'', phone),
                    (js ''STATE'', state),
                    (js ''ZIPCODE'', zipCode),
                    (js ''REGION'', region),
                    (js ''LEADSOURCE'', JStr (js ''WEBSITE EVENT REGISTRATION''))]),
           (js ''tag'', JStr (js ''ALUMNI''))]"

definition try_extended ::
  "(jsstring \<Rightarrow> jsval option) \<Rightarrow> env \<Rightarrow> jsval \<Rightarrow> jsval \<Rightarrow> jsval \<Rightarrow> jsval \<Rightarrow> jsval \<Rightarrow> jsval
     \<Rightarrow> jsval \<Rightarrow> jsval \<Rightarrow> jsval \<Rightarrow> jsval \<Rightarrow> jsval \<Rightarrow> unit action" where
  "try_extended parse e firstName lastName email company jobTitle eventId
       city state region zipCode phone =
     andThen (getZoomAccessToken parse e) (\<lambda>zoomAccessToken.
     andThen (lift (ToString eventId)) (\<lambda>eventId_string.
     andThen (lift (ToString zoomAccessToken)) (\<lambda>zoomAccessToken_string.
     andThen (fetch (RegistrantRequest (registrants_url eventId_string)
                (bearer zoomAccessToken_string)
                (JObj [(js ''email'', email),
                       (js ''first_name'', firstName),
                       (js ''last_name'', lastName),
                       (js ''org'', company),
                       (js ''city'', city),
                       (js ''country'', region),
                       (js ''zip'', zipCode),
                       (js ''state'', state),
                       (js ''phone'', phone),
                       (js ''job_title'', jobTitle)]))
              (zoom_reply e)) (\<lambda>zoomResponse.
     andThen (if \<not> ok zoomResponse
              then throw (tagged_error ''Zoom API error: '' ''zoom'' (body_text zoomResponse))
              else return ()) (\<lambda>_.
     andThen (lift (response_json parse zoomResponse)) (\<lambda>zoomData.
     andThen (fetch (MemberRequest MAILCHIMP_LIST_ID
                (member_ext firstName lastName email company jobTitle
                   city state region zipCode phone))
              (mailchimp_reply e)) (\<lambda>mailchimpResponse.
     andThen (fetch (MemberRequest MAILCHIMP_LIST_ID_2
                (member_ext firstName lastName email company jobTitle
                   city state region zipCode phone))
              (mailchimp2_reply e)) (\<lambda>mailchimpResponse2.
     andThen (if \<not> ok mailchimpResponse2 \<and> status mailchimpResponse2 \<noteq> 200
              then throw (tagged_error ''Mailchimp 2 List API error: '' ''mailchimp 2''
                            (body_text mailchimpResponse2))
              else return ()) (\<lambda>_.
     andThen (if \<not> ok mailchimpResponse \<and> status mailchimpResponse \<noteq> 200
              then throw (tagged_error ''Mailchimp 1 List API error: '' ''mailchimp 1''
                            (body_text mailchimpResponse))
              else return ()) (\<lambda>_.
     andThen (res_set ''Access-Control-Allow-Origin'' ''*'') (\<lambda>_.
       (\<lambda>w. andThen (lift (get_prop zoomData (js ''join_url''))) (\<lambda>join_url.
               res_send (JObj [(js ''message'', JStr (js ''Registration successful'')),
                               (js ''join_url'', join_url)]))
             (res_status 200 w)))))))))))))"

definition catch_extended :: "(jsstring \<Rightarrow> jsval option) \<Rightarrow> js_error \<Rightarrow> unit action" where
  "catch_extended parse error =
     andThen (res_set ''Access-Control-Allow-Origin'' ''*'') (\<lambda>_.
       respond 500 (error_body parse error))"

text \<open>
  The outer catch, for what the outer try throws outside the inner try: the conversion
  of \<open>email\<close> in \<^verbatim>\<open>emailRegex.test(email)\<close>.
\<close>

definition catch_outer :: "js_error \<Rightarrow> unit action" where
  "catch_outer err =
     andThen (res_set ''Access-Control-Allow-Origin'' ''*'') (\<lambda>_.
       respond 500 (JObj [(js ''message'', JStr (js ''Internal Server Error'')),
                          (js ''error'', JStr (err_toString err))]))"

text \<open>The function handed to the \<^verbatim>\<open>cors\<close> middleware (lines 51 to 253).\<close>

definition extended_callback ::
  "(jsstring \<Rightarrow> jsval option) \<Rightarrow> env \<Rightarrow> request \<Rightarrow> unit action" where
  "extended_callback parse e req =
     (if http_method req = js ''OPTIONS'' then
        andThen (res_set ''Access-Control-Allow-Origin'' ''*'') (\<lambda>_.
        andThen (res_set ''Access-Control-Allow-Methods'' ''GET, POST'') (\<lambda>_.
        andThen (res_set ''Access-Control-Allow-Headers'' ''Content-Type'') (\<lambda>_.
          respond 204 (JStr []))))
      else if http_method req \<noteq> js ''POST''
      then respond 405 (JStr (js ''Method Not Allowed''))
      else
        try_catch
          (let firstName = field req ''firstName'';
               lastName = field req ''lastName'';
               email = field req ''email'';
               company = field req ''company'';
               jobTitle = field req ''jobTitle'';
               eventId = field req ''eventId'';
               city = field req ''city'';
               state = field req ''state'';
               region = field req ''region'';
               zipCode = field req ''zipCode'';
               phone = field req ''phone'';
               identifier = field req ''identifier''
           in
             if \<not> truthy firstName \<or> \<not> truthy lastName \<or> \<not> truthy email
                \<or> \<not> truthy eventId \<or> \<not> truthy company \<or> \<not> truthy city
                \<or> \<not> truthy region \<or> \<not> truthy zipCode \<or> \<not> truthy state
                \<or> \<not> truthy phone \<or> \<not> truthy jobTitle
             then respond 500 missing_fields_body
             else
               let region = (if region = JStr (js ''United States'') then JStr (js ''US'')
                             else region)
               in
                 andThen (lift (ToString email)) (\<lambda>email_string.
                   if \<not> regex_test emailRegex email_string
                   then respond 400 invalid_email_body
                   else try_catch
                          (try_extended parse e firstName lastName email company jobTitle
                             eventId city state region zipCode phone)
                          (catch_extended parse)))
          catch_outer)"

text \<open>
  The exported function hands the request to the middleware. The middleware, set up
  with its defaults, answers an \<^verbatim>\<open>OPTIONS\<close> request itself, with status 204 and no
  body, and calls the function for every other request; so the function's own
  \<^verbatim>\<open>OPTIONS\<close> branch is not reached. The headers the middleware adds to a response
  depend on the headers of the request and are not part of the state.
\<close>

definition cors_preflight :: "unit action" where
  "cors_preflight = respond 204 JUndefined"

definition register_extended ::
  "(jsstring \<Rightarrow> jsval option) \<Rightarrow> env \<Rightarrow> request \<Rightarrow> unit action" where
  "register_extended parse e req =
     (if http_method req = js ''OPTIONS'' then cors_preflight
      else extended_callback parse e req)"

section \<open>Both variants\<close>

datatype variant = Base | Extended

definition register ::
  "variant \<Rightarrow> (jsstring \<Rightarrow> jsval option) \<Rightarrow> env \<Rightarrow> request \<Rightarrow> unit action" where
  "register v parse e req =
     (case v of Base \<Rightarrow> register_base parse e req
              | Extended \<Rightarrow> register_extended parse e req)"

text \<open>The names tested by the missing-fields check of each variant (lines 61 and 85).\<close>

definition required :: "variant \<Rightarrow> string list" where
  "required v =
     (case v of
        Base \<Rightarrow> [''firstName'', ''lastName'', ''email'', ''eventId'', ''company'']
      | Extended \<Rightarrow> [''firstName'', ''lastName'', ''email'', ''eventId'', ''company'',
                     ''city'', ''region'', ''zipCode'', ''state'', ''phone'', ''jobTitle''])"

text \<open>The pattern tested on a value: the test can throw, or say yes or no.\<close>

definition email_test :: "jsval \<Rightarrow> js_error + bool" where
  "email_test email =
     (case ToString email of Inl err \<Rightarrow> Inl err | Inr s \<Rightarrow> Inr (regex_test emailRegex s))"

text \<open>A POST request that passes both checks of the request body.\<close>

definition valid :: "variant \<Rightarrow> request \<Rightarrow> bool" where
  "valid v req =
     (http_method req = js ''POST'' \<and> list_all (\<lambda>k. truthy (field req k)) (required v)
      \<and> email_test (field req ''email'') = Inr True)"

text \<open>The lists a variant synchronizes, and the reply of each.\<close>

definition lists :: "variant \<Rightarrow> list_id list" where
  "lists v = (case v of Base \<Rightarrow> [MAILCHIMP_LIST_ID]
                      | Extended \<Rightarrow> [MAILCHIMP_LIST_ID, MAILCHIMP_LIST_ID_2])"

definition list_reply :: "env \<Rightarrow> list_id \<Rightarrow> fetch_result" where
  "list_reply e l = (case l of MAILCHIMP_LIST_ID \<Rightarrow> mailchimp_reply e
                            | MAILCHIMP_LIST_ID_2 \<Rightarrow> mailchimp2_reply e)"

text \<open>The headers the handler itself has set when it answers after the body checks.\<close>

definition own_headers :: "variant \<Rightarrow> (jsstring \<times> jsstring) list" where
  "own_headers v =
     (case v of Base \<Rightarrow> [] | Extended \<Rightarrow> [(js ''Access-Control-Allow-Origin'', js ''*'')])"

datatype stage = TokenStage | WebinarStage | ListStage list_id

fun stage_of :: "call \<Rightarrow> stage" where
  "stage_of TokenRequest = TokenStage"
| "stage_of (RegistrantRequest url authorization payload) = WebinarStage"
| "stage_of (MemberRequest l payload) = ListStage l"

text \<open>A reply that is there and has a 2xx status.\<close>

fun succeeded :: "fetch_result \<Rightarrow> bool" where
  "succeeded (Reply r) = ok r"
| "succeeded NoReply = False"

text \<open>What an invocation leaves: the response the caller gets and the calls issued.\<close>

definition response_of :: "(js_error + unit) \<times> world \<Rightarrow> http_response option" where
  "response_of out = sent (snd out)"

definition calls_of :: "(js_error + unit) \<times> world \<Rightarrow> call list" where
  "calls_of out = calls (snd out)"

text \<open>
  A \<open>parse\<close> that agrees with \<^verbatim>\<open>JSON.parse\<close> on the texts of the examples below and
  rejects every other text, and the requests and replies of the examples.
\<close>

definition demo_parse :: "jsstring \<Rightarrow> jsval option" where
  "demo_parse s =
     (if s = js ''{\"access_token\":\"t0k\"}''
        then Some (JObj [(js ''access_token'', JStr (js ''t0k''))])
      else if s = js ''{\"join_url\":\"https://zoom.us/w/1\"}''
        then Some (JObj [(js ''join_url'', JStr (js ''https://zoom.us/w/1''))])
      else if s = js ''{\"code\":3001,\"message\":\"Webinar does not exist.\"}''
        then Some (JObj [(js ''code'', JNum (js ''3001'')),
                         (js ''message'', JStr (js ''Webinar does not exist.''))])
      else if s = js ''{\"title\":\"Member Exists\",\"status\":400}''
        then Some (JObj [(js ''title'', JStr (js ''Member Exists'')),
                         (js ''status'', JNum (js ''400''))])
      else if s = js ''{\"reason\":\"Invalid client_id or client_secret\",\"error\":\"invalid_client\"}''
        then Some (JObj [(js ''reason'', JStr (js ''Invalid client_id or client_secret'')),
                         (js ''error'', JStr (js ''invalid_client''))])
      else None)"

definition demo_request :: request where
  "demo_request =
     \<lparr>http_method = js ''POST'',
      body = [js ''firstName'' \<mapsto> JStr (js ''A''), js ''lastName'' \<mapsto> JStr (js ''B''),
              js ''email'' \<mapsto> JStr (js ''a@b.com''), js ''company'' \<mapsto> JStr (js ''C''),
              js ''jobTitle'' \<mapsto> JStr (js ''D''), js ''eventId'' \<mapsto> JStr (js ''123''),
              js ''city'' \<mapsto> JStr (js ''Austin''), js ''state'' \<mapsto> JStr (js ''TX''),
              js ''region'' \<mapsto> JStr (js ''United States''),
              js ''zipCode'' \<mapsto> JStr (js ''73301''),
              js ''phone'' \<mapsto> JStr (js ''5550100'')]\<rparr>"

definition token_ok :: fetch_result where
  "token_ok = Reply \<lparr>status = 200, body_text = js ''{\"access_token\":\"t0k\"}''\<rparr>"

definition zoom_ok :: fetch_result where
  "zoom_ok = Reply \<lparr>status = 201, body_text = js ''{\"join_url\":\"https://zoom.us/w/1\"}''\<rparr>"

definition list_ok :: fetch_result where
  "list_ok = Reply \<lparr>status = 200, body_text = js ''{}''\<rparr>"

definition member_exists :: fetch_result where
  "member_exists =
     Reply \<lparr>status = 400, body_text = js ''{\"title\":\"Member Exists\",\"status\":400}''\<rparr>"

definition list_down :: fetch_result where
  "list_down = Reply \<lparr>status = 503, body_text = js ''Service Unavailable''\<rparr>"

definition demo_env :: env where
  "demo_env = \<lparr>token_reply = token_ok, zoom_reply = zoom_ok,
                mailchimp_reply = list_ok, mailchimp2_reply = list_ok\<rparr>"

definition token_denied :: fetch_result where
  "token_denied =
     Reply \<lparr>status = 401,
            body_text = js ''{\"reason\":\"Invalid client_id or client_secret\",\"error\":\"invalid_client\"}''\<rparr>"

definition zoom_not_found :: fetch_result where
  "zoom_not_found =
     Reply \<lparr>status = 404,
            body_text = js ''{\"code\":3001,\"message\":\"Webinar does not exist.\"}''\<rparr>"

definition no_event_request :: request where
  "no_event_request = demo_request\<lparr>body := (body demo_request)(js ''eventId'' := None)\<rparr>"


text \<open>A request whose email is the object \<^verbatim>\<open>{"toString": 1}\<close>.\<close>

definition object_email_request :: request where
  "object_email_request =
     demo_request\<lparr>body := (body demo_request)
       (js ''email'' \<mapsto> JObj [(js ''toString'', JNum (js ''1''))])\<rparr>"

section \<open>Notions used in the statements\<close>

text \<open>
  The outcome of the token helper. It is the same in every world
  (\<open>getZoomAccessToken_run\<close> below): the helper only adds its call.
\<close>

definition token_result :: "(jsstring \<Rightarrow> jsval option) \<Rightarrow> env \<Rightarrow> js_error + jsval" where
  "token_result parse e = fst (getZoomAccessToken parse e fresh)"

text \<open>
  The URL and the Authorization header of the registrant call, when the call can be
  made: both conversions return and node-fetch accepts the header. Otherwise the error
  that is thrown in place of the call.
\<close>

definition registrant_headers :: "jsval \<Rightarrow> jsval \<Rightarrow> js_error + jsstring \<times> jsstring" where
  "registrant_headers eventId zoomAccessToken =
     (case ToString eventId of
        Inl err \<Rightarrow> Inl err
      | Inr eventId_string \<Rightarrow>
          (case ToString zoomAccessToken of
             Inl err \<Rightarrow> Inl err
           | Inr token_string \<Rightarrow>
               if legal_header_value (bearer token_string)
               then Inr (registrants_url eventId_string, bearer token_string)
               else Inl (TypeError (bearer token_string
                                    @ js '' is not a legal HTTP header value''))))"

text \<open>
  The message of a provider's error body as the specification words it: the body
  decoded as JSON and its \<^verbatim>\<open>message\<close> member, or the raw text when the body does not
  decode or has no usable \<^verbatim>\<open>message\<close>. It is compared with \<open>errorInfo\<close> in
  \<open>errorInfo_tagged\<close>.
\<close>

definition decoded_message :: "(jsstring \<Rightarrow> jsval option) \<Rightarrow> jsstring \<Rightarrow> jsval" where
  "decoded_message parse t =
     (case parse t of
        Some (JObj kvs) \<Rightarrow>
          (case map_of kvs (js ''message'') of
             Some m \<Rightarrow> if truthy m then m else JStr t
           | None \<Rightarrow> JStr t)
      | _ \<Rightarrow> JStr t)"

text \<open>A call carries the given registrant object or member object as its payload.\<close>

fun carries :: "jsval \<Rightarrow> jsval \<Rightarrow> call \<Rightarrow> bool" where
  "carries registrant member TokenRequest = True"
| "carries registrant member (RegistrantRequest url authorization payload) =
     (payload = registrant)"
| "carries registrant member (MemberRequest l payload) = (payload = member)"

section \<open>Literals\<close>

lemma js_inject [simp]: "js a = js b \<longleftrightarrow> a = b"
  by (simp add: js_def inj_map_eq_map [OF inj_of_char])

lemma js_Nil [simp]: "js s = [] \<longleftrightarrow> s = []"
  by (simp add: js_def)

lemma js_append: "js a @ js b = js (a @ b)"
  by (simp add: js_def)

lemma js_append_left: "js a @ js b @ t = js (a @ b) @ t"
  by (simp add: js_def)

section \<open>The matcher decides the pattern\<close>

inductive_simps matches_Fail_iff [simp]: "matches Fail w"
inductive_simps matches_Empty_iff [simp]: "matches Empty w"
inductive_simps matches_Atom_iff [simp]: "matches (Atom a) w"
inductive_simps matches_Alt_iff [simp]: "matches (Alt r s) w"
inductive_simps matches_Seq_iff: "matches (Seq r s) w"

lemma nullable_matches: "nullable r \<longleftrightarrow> matches r []"
  by (induction r) (auto simp add: matches_Seq_iff intro: matches_StarNil)

lemma star_cons:
  assumes "matches (Star r) x" and "x = c # w"
  shows "\<exists>u v. w = u @ v \<and> matches r (c # u) \<and> matches (Star r) v"
  using assms
proof (induction "Star r" x arbitrary: w rule: matches.induct)
  case matches_StarNil
  then show ?case by simp
next
  case (matches_StarStep u v)
  show ?case
  proof (cases u)
    case Nil
    with matches_StarStep show ?thesis by simp
  next
    case (Cons d u')
    with matches_StarStep.prems have "d = c" and "w = u' @ v" by simp_all
    with matches_StarStep.hyps(1,3) Cons show ?thesis by blast
  qed
qed

lemma matches_Star_Cons_iff:
  "matches (Star r) (c # w) \<longleftrightarrow> (\<exists>u v. w = u @ v \<and> matches r (c # u) \<and> matches (Star r) v)"
proof
  assume "matches (Star r) (c # w)"
  then show "\<exists>u v. w = u @ v \<and> matches r (c # u) \<and> matches (Star r) v"
    by (rule star_cons) simp
next
  assume "\<exists>u v. w = u @ v \<and> matches r (c # u) \<and> matches (Star r) v"
  then obtain u v where "w = u @ v" "matches r (c # u)" "matches (Star r) v" by blast
  then show "matches (Star r) (c # w)"
    using matches_StarStep [of r "c # u" v] by simp
qed

lemma after_matches: "matches (after c r) w \<longleftrightarrow> matches r (c # w)"
proof (induction r arbitrary: w)
  case (Seq r s)
  show ?case
    by (auto simp add: matches_Seq_iff Seq nullable_matches Cons_eq_append_conv)
next
  case (Star r)
  show ?case
    by (simp add: matches_Seq_iff Star matches_Star_Cons_iff)
qed auto

lemma regex_test_matches: "regex_test r s \<longleftrightarrow> matches r s"
  unfolding regex_test_def
  by (induction s arbitrary: r) (simp_all add: nullable_matches after_matches)

lemma matches_Star_Atom: "matches (Star (Atom a)) w \<longleftrightarrow> (\<forall>c \<in> set w. atom_matches a c)"
  by (induction w) (auto simp add: matches_Star_Cons_iff intro: matches_StarNil)

lemma matches_Atom_Seq:
  "matches (Seq (Atom a) r) w \<longleftrightarrow> (\<exists>c v. w = c # v \<and> atom_matches a c \<and> matches r v)"
proof
  assume "matches (Seq (Atom a) r) w"
  then obtain u v where "w = u @ v" and "matches (Atom a) u" and "matches r v"
    by (auto simp add: matches_Seq_iff)
  then show "\<exists>c v. w = c # v \<and> atom_matches a c \<and> matches r v"
    by auto
next
  assume "\<exists>c v. w = c # v \<and> atom_matches a c \<and> matches r v"
  then obtain c v where w: "w = c # v" and "atom_matches a c" and "matches r v"
    by blast
  then have "matches (Seq (Atom a) r) ([c] @ v)"
    by (intro matches_Seq matches_Atom)
  with w show "matches (Seq (Atom a) r) w"
    by simp
qed

lemma matches_Plus_Atom:
  "matches (Plus (Atom a)) w \<longleftrightarrow> w \<noteq> [] \<and> (\<forall>c \<in> set w. atom_matches a c)"
  by (cases w) (simp_all add: Plus_def matches_Atom_Seq matches_Star_Atom)

lemma matches_Plus_plain: "matches (Plus (Atom NotSpaceAt)) w \<longleftrightarrow> plain w"
  by (simp add: matches_Plus_Atom plain_def)

lemma matches_Plus_Seq:
  "matches (Seq (Plus (Atom NotSpaceAt)) r) w \<longleftrightarrow>
     (\<exists>u v. w = u @ v \<and> plain u \<and> matches r v)"
  by (simp add: matches_Seq_iff [of "Plus (Atom NotSpaceAt)"] matches_Plus_plain)

lemma matches_Lit_Seq:
  "matches (Seq (Atom (Lit d)) r) w \<longleftrightarrow> (\<exists>v. w = d # v \<and> matches r v)"
  by (simp add: matches_Atom_Seq)

text \<open>
  The test says yes to the strings \<^verbatim>\<open>a@b.c\<close> with \<open>a\<close>, \<open>b\<close> and \<open>c\<close> non-empty and
  free of white space and of \<^verbatim>\<open>@\<close>.
\<close>

lemma emailRegex_test_iff:
  "regex_test emailRegex s \<longleftrightarrow>
     (\<exists>a b c. s = a @ js ''@'' @ b @ js ''.'' @ c \<and> plain a \<and> plain b \<and> plain c)"
proof -
  have "regex_test emailRegex s \<longleftrightarrow>
      (\<exists>a v. s = a @ v \<and> plain a
         \<and> (\<exists>w. v = 64 # w
              \<and> (\<exists>b t. w = b @ t \<and> plain b \<and> (\<exists>c. t = 46 # c \<and> plain c))))"
    (is "_ \<longleftrightarrow> ?nested")
    unfolding regex_test_matches emailRegex_def
    by (simp add: matches_Plus_Seq matches_Lit_Seq matches_Plus_plain)
  moreover have "?nested \<longleftrightarrow>
      (\<exists>a b c. s = a @ js ''@'' @ b @ js ''.'' @ c \<and> plain a \<and> plain b \<and> plain c)"
  proof
    assume ?nested
    then obtain a b c where "s = a @ 64 # b @ 46 # c"
      and "plain a" and "plain b" and "plain c"
      by blast
    then show "\<exists>a b c. s = a @ js ''@'' @ b @ js ''.'' @ c \<and> plain a \<and> plain b \<and> plain c"
      by (auto simp add: js_def)
  next
    assume "\<exists>a b c. s = a @ js ''@'' @ b @ js ''.'' @ c \<and> plain a \<and> plain b \<and> plain c"
    then obtain a b c where "s = a @ 64 # b @ 46 # c"
      and "plain a" and "plain b" and "plain c"
      by (auto simp add: js_def)
    then show ?nested
      by blast
  qed
  ultimately show ?thesis
    by simp
qed

section \<open>Facts about the steps\<close>

lemmas step_defs = andThen_def try_catch_def fetch_def respond_def res_send_def res_set_def
  res_status_def lift_def throw_def return_def response_json_def Let_def

lemma getZoomAccessToken_run:
  "getZoomAccessToken parse e w = (token_result parse e, w\<lparr>calls := calls w @ [TokenRequest]\<rparr>)"
  by (simp add: token_result_def getZoomAccessToken_def step_defs
      split: fetch_result.splits option.splits sum.splits)

lemma token_result_Inr_iff:
  "token_result parse e = Inr tok \<longleftrightarrow>
     (\<exists>r d. token_reply e = Reply r \<and> ok r \<and> parse (body_text r) = Some d
        \<and> get_prop d (js ''access_token'') = Inr tok)"
  by (auto simp add: token_result_def getZoomAccessToken_def step_defs
      split: fetch_result.splits option.splits sum.splits)

lemma token_result_not_ok:
  "token_reply e = Reply r \<Longrightarrow> \<not> ok r \<Longrightarrow>
     token_result parse e =
       Inl (new_Error (js ''Failed to fetch Zoom access token: '' @ body_text r))"
  by (simp add: token_result_def getZoomAccessToken_def step_defs)

lemma token_result_mailchimp:
  "token_result parse (e\<lparr>mailchimp_reply := m\<rparr>) = token_result parse e"
  by (simp add: token_result_def getZoomAccessToken_def step_defs)

text \<open>When the registrant call is made, and when it is not.\<close>

lemma registrant_headers_Inr_iff:
  "registrant_headers eventId tok = Inr (url, authorization) \<longleftrightarrow>
     (\<exists>s t. ToString eventId = Inr s \<and> ToString tok = Inr t \<and> legal_header_value (bearer t)
        \<and> url = registrants_url s \<and> authorization = bearer t)"
  by (auto simp add: registrant_headers_def split: sum.splits)

lemma registrant_fetch_run:
  "andThen (lift (ToString eventId)) (\<lambda>s.
     andThen (lift (ToString tok)) (\<lambda>t.
       andThen (fetch (RegistrantRequest (registrants_url s) (bearer t) payload) r) k)) w =
   (case registrant_headers eventId tok of
      Inl err \<Rightarrow> (Inl err, w)
    | Inr (url, authorization) \<Rightarrow>
        (case r of
           NoReply \<Rightarrow>
             (Inl (FetchError ''system''),
              w\<lparr>calls := calls w @ [RegistrantRequest url authorization payload]\<rparr>)
         | Reply resp \<Rightarrow>
             k resp (w\<lparr>calls := calls w @ [RegistrantRequest url authorization payload]\<rparr>)))"
  by (simp add: registrant_headers_def illegal_header_def step_defs
      split: sum.splits fetch_result.splits)

text \<open>In the extended variant the second conjunct of the list checks never decides.\<close>

lemma extended_guard: "(\<not> ok r \<and> status r \<noteq> 200) \<longleftrightarrow> \<not> ok r"
  by (auto simp add: ok_def)

lemma valid_Base:
  "valid Base req \<longleftrightarrow>
     http_method req = js ''POST'' \<and> truthy (field req ''firstName'')
     \<and> truthy (field req ''lastName'') \<and> truthy (field req ''email'')
     \<and> truthy (field req ''eventId'') \<and> truthy (field req ''company'')
     \<and> email_test (field req ''email'') = Inr True"
  by (simp add: valid_def required_def)

lemma valid_Extended:
  "valid Extended req \<longleftrightarrow>
     http_method req = js ''POST'' \<and> truthy (field req ''firstName'')
     \<and> truthy (field req ''lastName'') \<and> truthy (field req ''email'')
     \<and> truthy (field req ''eventId'') \<and> truthy (field req ''company'')
     \<and> truthy (field req ''city'') \<and> truthy (field req ''region'')
     \<and> truthy (field req ''zipCode'') \<and> truthy (field req ''state'')
     \<and> truthy (field req ''phone'') \<and> truthy (field req ''jobTitle'')
     \<and> email_test (field req ''email'') = Inr True"
  by (simp add: valid_def required_def)

lemma email_test_True:
  "email_test email = Inr True \<longleftrightarrow> (\<exists>s. ToString email = Inr s \<and> regex_test emailRegex s)"
  by (auto simp add: email_test_def split: sum.splits)


lemma email_test_Inl: "email_test email = Inl err \<longleftrightarrow> ToString email = Inl err"
  by (auto simp add: email_test_def split: sum.splits)

text \<open>A valid request reaches the try block, with the names as destructured.\<close>

lemma register_Base_valid:
  "valid Base req \<Longrightarrow>
     register Base parse e req =
       try_catch (try_base parse e (field req ''firstName'') (field req ''lastName'')
                    (field req ''email'') (field req ''company'') (field req ''jobTitle'')
                    (field req ''eventId''))
         (catch_base parse)"
  by (rule ext)
     (auto simp add: valid_Base email_test_True register_def register_base_def andThen_def
        lift_def Let_def)

lemma register_Extended_valid:
  "valid Extended req \<Longrightarrow>
     register Extended parse e req =
       try_catch
         (try_catch
            (try_extended parse e (field req ''firstName'') (field req ''lastName'')
               (field req ''email'') (field req ''company'') (field req ''jobTitle'')
               (field req ''eventId'') (field req ''city'') (field req ''state'')
               (if field req ''region'' = JStr (js ''United States'') then JStr (js ''US'')
                else field req ''region'')
               (field req ''zipCode'') (field req ''phone''))
            (catch_extended parse))
         catch_outer"
  by (rule ext)
     (auto simp add: valid_Extended email_test_True register_def register_extended_def
        extended_callback_def andThen_def lift_def try_catch_def Let_def)

text \<open>
  For an error built by the handler, \<open>errorInfo\<close> is the decoded message of the
  specification.
\<close>

lemma errorInfo_tagged:
  "errorInfo parse (tagged_error prefix ty t) = decoded_message parse t"
  by (simp add: errorInfo_def tagged_error_def new_Error_def decoded_message_def
      split: option.splits jsval.splits)

lemma error_body_tagged:
  "error_body parse (tagged_error prefix ty t) =
     JObj [(js ''message'', JStr (js ''Internal Server Error'')),
           (js ''info'', decoded_message parse t),
           (js ''errorAt'', JStr (js ty))]"
  by (simp add: error_body_def errorInfo_tagged) (simp add: tagged_error_def)

text \<open>An error without \<^verbatim>\<open>type\<close> and \<^verbatim>\<open>text\<close> leaves both members undefined.\<close>

lemma error_body_untagged:
  "err_type err = JUndefined \<Longrightarrow> err_text err = JUndefined \<Longrightarrow>
     error_body parse err =
       JObj [(js ''message'', JStr (js ''Internal Server Error'')),
             (js ''info'', JUndefined),
             (js ''errorAt'', JUndefined)]"
  by (simp add: error_body_def errorInfo_def)

lemma error_body_new_Error:
  "error_body parse (new_Error msg) =
     JObj [(js ''message'', JStr (js ''Internal Server Error'')),
           (js ''info'', JUndefined),
           (js ''errorAt'', JUndefined)]"
  by (simp add: error_body_untagged new_Error_def)

text \<open>An error of node-fetch carries its own type and no text.\<close>

lemma error_body_FetchError:
  "error_body parse (FetchError ty) =
     JObj [(js ''message'', JStr (js ''Internal Server Error'')),
           (js ''info'', JUndefined),
           (js ''errorAt'', JStr (js ty))]"
  by (simp add: error_body_def errorInfo_def FetchError_def)

text \<open>The errors of the conversions and of the header check have neither.\<close>

lemma ToString_error:
  "ToString v = Inl err \<Longrightarrow> err_type err = JUndefined \<and> err_text err = JUndefined"
  and join_elements_error:
  "join_elements vs = Inl err \<Longrightarrow> err_type err = JUndefined \<and> err_text err = JUndefined"
  by (induction v and vs arbitrary: err and err rule: ToString_join_elements.induct)
     (auto simp add: cannot_convert_def TypeError_def split: if_splits sum.splits)

lemma registrant_headers_error:
  "registrant_headers eventId tok = Inl err \<Longrightarrow>
     err_type err = JUndefined \<and> err_text err = JUndefined"
  by (auto simp add: registrant_headers_def TypeError_def dest: ToString_error
      split: sum.splits if_splits)

lemmas run_defs = getZoomAccessToken_run try_base_def try_extended_def catch_base_def
  catch_extended_def catch_outer_def step_defs fresh_def calls_of_def response_of_def

text \<open>The examples: the request is valid, the token reply yields the token, the call is made.\<close>

lemma demo_valid: "valid v demo_request"
  by (cases v)
     (simp_all add: valid_def required_def demo_request_def field_def email_test_def
        regex_test_def emailRegex_def Plus_def is_space_def js_def)

lemma demo_token [simp]:
  "token_reply e = token_ok \<Longrightarrow> token_result demo_parse e = Inr (JStr (js ''t0k''))"
  by (simp add: token_result_def getZoomAccessToken_def step_defs token_ok_def ok_def
      demo_parse_def)

lemma demo_token_denied [simp]:
  "token_reply e = token_denied \<Longrightarrow>
     token_result demo_parse e =
       Inl (new_Error (js ''Failed to fetch Zoom access token: {\"reason\":\"Invalid client_id or client_secret\",\"error\":\"invalid_client\"}''))"
  by (simp add: token_result_not_ok [where r = "\<lparr>status = 401,
            body_text = js ''{\"reason\":\"Invalid client_id or client_secret\",\"error\":\"invalid_client\"}''\<rparr>"]
        token_denied_def ok_def js_append)

lemma demo_url [simp]:
  "registrants_url (js ''123'') = js ''https://api.zoom.us/v2/webinars/123/registrants''"
  by (simp add: registrants_url_def js_append)

lemma demo_bearer [simp]: "bearer (js ''t0k'') = js ''Bearer t0k''"
  by (simp add: bearer_def js_append)

lemma demo_legal [simp]: "legal_header_value (js ''Bearer t0k'')"
  by (simp add: legal_header_value_def js_def)

lemma demo_registrant [simp]:
  "registrant_headers (JStr (js ''123'')) (JStr (js ''t0k'')) =
     Inr (js ''https://api.zoom.us/v2/webinars/123/registrants'', js ''Bearer t0k'')"
  by (simp add: registrant_headers_def)

lemma demo_fields [simp]:
  "field demo_request ''firstName'' = JStr (js ''A'')"
  "field demo_request ''lastName'' = JStr (js ''B'')"
  "field demo_request ''email'' = JStr (js ''a@b.com'')"
  "field demo_request ''company'' = JStr (js ''C'')"
  "field demo_request ''jobTitle'' = JStr (js ''D'')"
  "field demo_request ''eventId'' = JStr (js ''123'')"
  "field demo_request ''city'' = JStr (js ''Austin'')"
  "field demo_request ''state'' = JStr (js ''TX'')"
  "field demo_request ''region'' = JStr (js ''United States'')"
  "field demo_request ''zipCode'' = JStr (js ''73301'')"
  "field demo_request ''phone'' = JStr (js ''5550100'')"
  by (simp_all add: demo_request_def field_def)

section \<open>The extended variant always completes\<close>

text \<open>
  Nothing is sent before a catch block runs, so its writes succeed: the invocation
  ends with a response, from the inner catch, or from the outer one when the conversion
  of the email throws.
\<close>

lemma register_extended_completes: "fst (register Extended parse e req fresh) = Inr ()"
  by (simp add: register_def register_extended_def extended_callback_def cors_preflight_def
      run_defs extended_guard split: fetch_result.splits option.splits sum.splits)

lemma extended_email_throws:
  assumes "http_method req = js ''POST''"
    and "list_all (\<lambda>k. truthy (field req k)) (required Extended)"
    and "ToString (field req ''email'') = Inl err"
  shows "register Extended parse e req fresh =
           (Inr (),
            \<lparr>calls = [], statusCode = 500,
              headers = [(js ''Access-Control-Allow-Origin'', js ''*'')],
              sent = Some \<lparr>rstatus = 500,
                           rheaders = [(js ''Access-Control-Allow-Origin'', js ''*'')],
                           rbody = JObj [(js ''message'', JStr (js ''Internal Server Error'')),
                                         (js ''error'', JStr (err_toString err))]\<rparr>\<rparr>)"
  using assms
  by (simp add: register_def register_extended_def extended_callback_def required_def
      run_defs)

section \<open>What the base variant answers\<close>

text \<open>
  The base variant leaves the caller without a response exactly when the request passes
  the missing-fields check and the conversion of its email throws; then it ends
  rejected, with no call made.
\<close>

lemma base_email_throws:
  assumes "http_method req = js ''POST''"
    and "list_all (\<lambda>k. truthy (field req k)) (required Base)"
    and "ToString (field req ''email'') = Inl err"
  shows "register Base parse e req fresh = (Inl err, fresh)"
  using assms
  by (simp add: register_def register_base_def required_def step_defs)

lemma base_no_response_iff:
  "response_of (register Base parse e req fresh) = None \<longleftrightarrow>
     http_method req = js ''POST'' \<and> list_all (\<lambda>k. truthy (field req k)) (required Base)
     \<and> (\<exists>err. ToString (field req ''email'') = Inl err)"
  by (simp add: register_def register_base_def required_def run_defs
      split: fetch_result.splits option.splits sum.splits)
     (auto simp add: fresh_def)

text \<open>The response of the base variant is the same whatever the list replies.\<close>

lemma base_response_list_independent:
  "response_of (register Base parse (e\<lparr>mailchimp_reply := m\<rparr>) req fresh) =
     response_of (register Base parse e req fresh)"
  by (simp add: register_def register_base_def run_defs token_result_mailchimp
      split: fetch_result.splits option.splits sum.splits)

text \<open>Once the registrant is created, the base variant has answered 200.\<close>

lemma base_answers_200:
  assumes "valid Base req" and "token_result parse e = Inr tok"
    and "registrant_headers (field req ''eventId'') tok = Inr (url, authorization)"
    and "zoom_reply e = Reply zr" and "ok zr"
    and "parse (body_text zr) = Some zoomData"
    and "get_prop zoomData (js ''join_url'') = Inr u"
  shows "response_of (register Base parse e req fresh) =
           Some \<lparr>rstatus = 200, rheaders = [],
                 rbody = JObj [(js ''message'', JStr (js ''Registration successful'')),
                               (js ''join_url'', u)]\<rparr>"
proof -
  from assms(3) obtain s t where "ToString (field req ''eventId'') = Inr s"
    and "ToString tok = Inr t" and "legal_header_value (bearer t)"
    by (auto simp add: registrant_headers_Inr_iff)
  with assms(2,4-) show ?thesis
    by (cases "mailchimp_reply e") (simp_all add: register_Base_valid [OF assms(1)] run_defs)
qed

section \<open>List synchronization failures\<close>

text \<open>
  Base variant: a list reply that is neither 2xx nor 400 throws after the 200 response
  is sent; the catch block's write is refused and the invocation ends rejected.
\<close>

lemma base_list_failure_rejected:
  assumes "valid Base req" and "token_result parse e = Inr tok"
    and "registrant_headers (field req ''eventId'') tok = Inr (url, authorization)"
    and "zoom_reply e = Reply zr" and "ok zr"
    and "parse (body_text zr) = Some zoomData"
    and "get_prop zoomData (js ''join_url'') = Inr u"
    and "mailchimp_reply e = Reply m1" and "\<not> ok m1" and "status m1 \<noteq> 400"
  shows "fst (register Base parse e req fresh) = Inl HeadersSentError"
proof -
  from assms(3) obtain s t where "ToString (field req ''eventId'') = Inr s"
    and "ToString tok = Inr t" and "legal_header_value (bearer t)"
    by (auto simp add: registrant_headers_Inr_iff)
  with assms(2,4-) show ?thesis
    by (simp add: register_Base_valid [OF assms(1)] run_defs)
qed

lemma base_list_400_exempt:
  assumes "valid Base req" and "token_result parse e = Inr tok"
    and "registrant_headers (field req ''eventId'') tok = Inr (url, authorization)"
    and "zoom_reply e = Reply zr" and "ok zr"
    and "parse (body_text zr) = Some zoomData"
    and "get_prop zoomData (js ''join_url'') = Inr u"
    and "mailchimp_reply e = Reply m1" and "status m1 = 400"
  shows "fst (register Base parse e req fresh) = Inr ()"
proof -
  from assms(3) obtain s t where "ToString (field req ''eventId'') = Inr s"
    and "ToString tok = Inr t" and "legal_header_value (bearer t)"
    by (auto simp add: registrant_headers_Inr_iff)
  with assms(2,4-) show ?thesis
    by (simp add: register_Base_valid [OF assms(1)] run_defs)
qed

text \<open>
  Extended variant: every list reply that is not 2xx is fatal, 400 included; the second
  list is looked at first.
\<close>

lemma extended_list_failure_tagged:
  assumes "valid Extended req" and "token_result parse e = Inr tok"
    and "registrant_headers (field req ''eventId'') tok = Inr (url, authorization)"
    and "zoom_reply e = Reply zr" and "ok zr" and "parse (body_text zr) = Some zoomData"
    and "mailchimp_reply e = Reply m1" and "mailchimp2_reply e = Reply m2"
    and "\<not> ok m1 \<or> \<not> ok m2"
  shows "response_of (register Extended parse e req fresh) =
           Some \<lparr>rstatus = 500, rheaders = [(js ''Access-Control-Allow-Origin'', js ''*'')],
                 rbody = JObj [(js ''message'', JStr (js ''Internal Server Error'')),
                               (js ''info'', decoded_message parse
                                               (body_text (if ok m2 then m1 else m2))),
                               (js ''errorAt'',
                                  JStr (js (if ok m2 then ''mailchimp 1''
                                            else ''mailchimp 2'')))]\<rparr>"
proof -
  from assms(3) obtain s t where "ToString (field req ''eventId'') = Inr s"
    and "ToString tok = Inr t" and "legal_header_value (bearer t)"
    by (auto simp add: registrant_headers_Inr_iff)
  with assms(2,4-) show ?thesis
    by (auto simp add: register_Extended_valid [OF assms(1)] run_defs error_body_tagged
        extended_guard)
qed

text \<open>The payloads of the extended variant's calls.\<close>

lemma try_extended_carries:
  "list_all
     (carries
        (JObj [(js ''email'', email), (js ''first_name'', firstName),
               (js ''last_name'', lastName), (js ''org'', company), (js ''city'', city),
               (js ''country'', region), (js ''zip'', zipCode), (js ''state'', state),
               (js ''phone'', phone), (js ''job_title'', jobTitle)])
        (member_ext firstName lastName email company jobTitle city state region zipCode phone))
     (calls (snd (try_catch
        (try_catch
           (try_extended parse e firstName lastName email company jobTitle eventId
              city state region zipCode phone)
           (catch_extended parse))
        catch_outer fresh)))"
  by (simp add: run_defs split: fetch_result.splits option.splits sum.splits)

lemma try_extended_calls:
  assumes "token_result parse e = Inr tok"
    and "registrant_headers eventId tok = Inr (url, authorization)"
    and "zoom_reply e = Reply zr" and "ok zr" and "parse (body_text zr) = Some zoomData"
    and "mailchimp_reply e = Reply m1"
  shows "calls (snd (try_catch
        (try_catch
           (try_extended parse e firstName lastName email company jobTitle eventId
              city state region zipCode phone)
           (catch_extended parse))
        catch_outer fresh)) =
     [TokenRequest,
      RegistrantRequest url authorization
        (JObj [(js ''email'', email), (js ''first_name'', firstName),
               (js ''last_name'', lastName), (js ''org'', company), (js ''city'', city),
               (js ''country'', region), (js ''zip'', zipCode), (js ''state'', state),
               (js ''phone'', phone), (js ''job_title'', jobTitle)]),
      MemberRequest MAILCHIMP_LIST_ID
        (member_ext firstName lastName email company jobTitle city state region zipCode phone),
      MemberRequest MAILCHIMP_LIST_ID_2
        (member_ext firstName lastName email company jobTitle city state region zipCode phone)]"
proof -
  from assms(2) obtain s t where "ToString eventId = Inr s"
    and "ToString tok = Inr t" and "legal_header_value (bearer t)"
    and "url = registrants_url s" and "authorization = bearer t"
    by (auto simp add: registrant_headers_Inr_iff)
  with assms(1,3-) show ?thesis
    by (simp add: run_defs split: fetch_result.splits option.splits sum.splits)
qed

section \<open>Where a request stops\<close>

text \<open>
  A request that passes the body checks, stage by stage: the token helper fails; the
  registrant call cannot be made; the registrant fetch rejects; the registrant reply is
  not 2xx; the registrant reply is 2xx and not JSON.
\<close>

lemma stops_at_token:
  assumes "valid v req" and "token_result parse e = Inl err"
  shows "calls_of (register v parse e req fresh) = [TokenRequest]"
proof (cases v)
  case Base
  with assms show ?thesis
    by (simp add: register_Base_valid run_defs)
next
  case Extended
  with assms show ?thesis
    by (simp add: register_Extended_valid run_defs)
qed

lemma stops_before_registrant:
  assumes "valid v req" and "token_result parse e = Inr tok"
    and "registrant_headers (field req ''eventId'') tok = Inl err"
  shows "calls_of (register v parse e req fresh) = [TokenRequest]
         \<and> response_of (register v parse e req fresh) =
             Some \<lparr>rstatus = 500, rheaders = own_headers v,
                   rbody = JObj [(js ''message'', JStr (js ''Internal Server Error'')),
                                 (js ''info'', JUndefined),
                                 (js ''errorAt'', JUndefined)]\<rparr>"
proof -
  from assms(3) have u: "error_body parse err =
      JObj [(js ''message'', JStr (js ''Internal Server Error'')),
            (js ''info'', JUndefined), (js ''errorAt'', JUndefined)]"
    by (simp add: registrant_headers_error error_body_untagged)
  from assms(3) consider
    (event) "ToString (field req ''eventId'') = Inl err"
    | (token) s where "ToString (field req ''eventId'') = Inr s" "ToString tok = Inl err"
    | (header) s t where "ToString (field req ''eventId'') = Inr s" "ToString tok = Inr t"
        "\<not> legal_header_value (bearer t)"
        "err = TypeError (bearer t @ js '' is not a legal HTTP header value'')"
    by (auto simp add: registrant_headers_def split: sum.splits if_splits)
  then show ?thesis
  proof cases
    case event
    with assms(1,2) u show ?thesis
      by (cases v)
         (simp_all add: register_Base_valid register_Extended_valid run_defs own_headers_def)
  next
    case token
    with assms(1,2) u show ?thesis
      by (cases v)
         (simp_all add: register_Base_valid register_Extended_valid run_defs own_headers_def)
  next
    case header
    with assms(1,2) u show ?thesis
      by (cases v)
         (simp_all add: register_Base_valid register_Extended_valid run_defs own_headers_def
            illegal_header_def)
  qed
qed

lemma stops_at_registrant_no_reply:
  assumes "valid v req" and "token_result parse e = Inr tok"
    and "registrant_headers (field req ''eventId'') tok = Inr (url, authorization)"
    and "zoom_reply e = NoReply"
  shows "map stage_of (calls_of (register v parse e req fresh)) = [TokenStage, WebinarStage]
         \<and> response_of (register v parse e req fresh) =
             Some \<lparr>rstatus = 500, rheaders = own_headers v,
                   rbody = JObj [(js ''message'', JStr (js ''Internal Server Error'')),
                                 (js ''info'', JUndefined),
                                 (js ''errorAt'', JStr (js ''system''))]\<rparr>"
proof -
  from assms(3) obtain s t where "ToString (field req ''eventId'') = Inr s"
    and "ToString tok = Inr t" and "legal_header_value (bearer t)"
    by (auto simp add: registrant_headers_Inr_iff)
  with assms(1,2,4) show ?thesis
    by (cases v)
       (simp_all add: register_Base_valid register_Extended_valid run_defs own_headers_def
          error_body_FetchError)
qed

lemma stops_at_registrant_not_ok:
  assumes "valid v req" and "token_result parse e = Inr tok"
    and "registrant_headers (field req ''eventId'') tok = Inr (url, authorization)"
    and "zoom_reply e = Reply zr" and "\<not> ok zr"
  shows "map stage_of (calls_of (register v parse e req fresh)) = [TokenStage, WebinarStage]
         \<and> response_of (register v parse e req fresh) =
             Some \<lparr>rstatus = 500, rheaders = own_headers v,
                   rbody = JObj [(js ''message'', JStr (js ''Internal Server Error'')),
                                 (js ''info'', decoded_message parse (body_text zr)),
                                 (js ''errorAt'', JStr (js ''zoom''))]\<rparr>"
proof -
  from assms(3) obtain s t where "ToString (field req ''eventId'') = Inr s"
    and "ToString tok = Inr t" and "legal_header_value (bearer t)"
    by (auto simp add: registrant_headers_Inr_iff)
  with assms(1,2,4,5) show ?thesis
    by (cases v)
       (simp_all add: register_Base_valid register_Extended_valid run_defs own_headers_def
          error_body_tagged)
qed

lemma stops_at_registrant_not_json:
  assumes "valid v req" and "token_result parse e = Inr tok"
    and "registrant_headers (field req ''eventId'') tok = Inr (url, authorization)"
    and "zoom_reply e = Reply zr" and "ok zr" and "parse (body_text zr) = None"
  shows "map stage_of (calls_of (register v parse e req fresh)) = [TokenStage, WebinarStage]
         \<and> response_of (register v parse e req fresh) =
             Some \<lparr>rstatus = 500, rheaders = own_headers v,
                   rbody = JObj [(js ''message'', JStr (js ''Internal Server Error'')),
                                 (js ''info'', JUndefined),
                                 (js ''errorAt'', JStr (js ''invalid-json''))]\<rparr>"
proof -
  from assms(3) obtain s t where "ToString (field req ''eventId'') = Inr s"
    and "ToString tok = Inr t" and "legal_header_value (bearer t)"
    by (auto simp add: registrant_headers_Inr_iff)
  with assms(1,2,4,5,6) show ?thesis
    by (cases v)
       (simp_all add: register_Base_valid register_Extended_valid run_defs own_headers_def
          error_body_FetchError)
qed

section \<open>The claims\<close>

subsection \<open>C1: a list already holding the member\<close>

text \<open>
  Claim C1. A list-sync reply with the "already a member" status counts as a success
  of that list: no abort, no list tag, and the request can still end with 200, in the
  base variant and for each of the two lists of the extended variant.

  The base variant exempts status 400, the status of the provider's "Member Exists"
  reply. The extended variant exempts status 200 instead, which is a 2xx status already,
  so there a "Member Exists" reply aborts the request. The theorem runs both variants on
  that reply: the extended variant answers 500 with the tag of the list, the base
  variant completes after its 200.
\<close>

theorem member_exists_aborts_extended:
  "response_of (register Extended demo_parse (demo_env\<lparr>mailchimp2_reply := member_exists\<rparr>)
      demo_request fresh) =
     Some \<lparr>rstatus = 500, rheaders = [(js ''Access-Control-Allow-Origin'', js ''*'')],
           rbody = JObj [(js ''message'', JStr (js ''Internal Server Error'')),
                         (js ''info'', JStr (js ''{\"title\":\"Member Exists\",\"status\":400}'')),
                         (js ''errorAt'', JStr (js ''mailchimp 2''))]\<rparr>
   \<and> response_of (register Extended demo_parse (demo_env\<lparr>mailchimp_reply := member_exists\<rparr>)
        demo_request fresh) =
       Some \<lparr>rstatus = 500, rheaders = [(js ''Access-Control-Allow-Origin'', js ''*'')],
             rbody = JObj [(js ''message'', JStr (js ''Internal Server Error'')),
                           (js ''info'', JStr (js ''{\"title\":\"Member Exists\",\"status\":400}'')),
                           (js ''errorAt'', JStr (js ''mailchimp 1''))]\<rparr>
   \<and> register Base demo_parse (demo_env\<lparr>mailchimp_reply := member_exists\<rparr>)
        demo_request fresh =
       (Inr (),
        \<lparr>calls =
           [TokenRequest,
            RegistrantRequest (js ''https://api.zoom.us/v2/webinars/123/registrants'')
              (js ''Bearer t0k'')
              (JObj [(js ''email'', JStr (js ''a@b.com'')),
                     (js ''first_name'', JStr (js ''A'')),
                     (js ''last_name'', JStr (js ''B'')),
                     (js ''org'', JStr (js ''C''))]),
            MemberRequest MAILCHIMP_LIST_ID
              (JObj [(js ''email_address'', JStr (js ''a@b.com'')),
                     (js ''status_if_new'', JStr (js ''subscribed'')),
                     (js ''merge_fields'',
                        JObj [(js ''FNAME'', JStr (js ''A'')), (js ''LNAME'', JStr (js ''B'')),
                              (js ''COMPANY'', JStr (js ''C'')),
                              (js ''JOBTITLE'', JStr (js ''D''))])])],
         statusCode = 200, headers = [],
         sent = Some \<lparr>rstatus = 200, rheaders = [],
                      rbody = JObj [(js ''message'', JStr (js ''Registration successful'')),
                                    (js ''join_url'', JStr (js ''https://zoom.us/w/1''))]\<rparr>\<rparr>)"
proof (intro conjI)
  show "response_of (register Extended demo_parse
          (demo_env\<lparr>mailchimp2_reply := member_exists\<rparr>) demo_request fresh) =
     Some \<lparr>rstatus = 500, rheaders = [(js ''Access-Control-Allow-Origin'', js ''*'')],
           rbody = JObj [(js ''message'', JStr (js ''Internal Server Error'')),
                         (js ''info'', JStr (js ''{\"title\":\"Member Exists\",\"status\":400}'')),
                         (js ''errorAt'', JStr (js ''mailchimp 2''))]\<rparr>"
    by (simp add: register_Extended_valid [OF demo_valid] run_defs error_body_tagged
        demo_env_def zoom_ok_def list_ok_def member_exists_def ok_def demo_parse_def
        decoded_message_def)
  show "response_of (register Extended demo_parse
          (demo_env\<lparr>mailchimp_reply := member_exists\<rparr>) demo_request fresh) =
       Some \<lparr>rstatus = 500, rheaders = [(js ''Access-Control-Allow-Origin'', js ''*'')],
             rbody = JObj [(js ''message'', JStr (js ''Internal Server Error'')),
                           (js ''info'', JStr (js ''{\"title\":\"Member Exists\",\"status\":400}'')),
                           (js ''errorAt'', JStr (js ''mailchimp 1''))]\<rparr>"
    by (simp add: register_Extended_valid [OF demo_valid] run_defs error_body_tagged
        demo_env_def zoom_ok_def list_ok_def member_exists_def ok_def demo_parse_def
        decoded_message_def)
  show "register Base demo_parse (demo_env\<lparr>mailchimp_reply := member_exists\<rparr>)
        demo_request fresh =
       (Inr (),
        \<lparr>calls =
           [TokenRequest,
            RegistrantRequest (js ''https://api.zoom.us/v2/webinars/123/registrants'')
              (js ''Bearer t0k'')
              (JObj [(js ''email'', JStr (js ''a@b.com'')),
                     (js ''first_name'', JStr (js ''A'')),
                     (js ''last_name'', JStr (js ''B'')),
                     (js ''org'', JStr (js ''C''))]),
            MemberRequest MAILCHIMP_LIST_ID
              (JObj [(js ''email_address'', JStr (js ''a@b.com'')),
                     (js ''status_if_new'', JStr (js ''subscribed'')),
                     (js ''merge_fields'',
                        JObj [(js ''FNAME'', JStr (js ''A'')), (js ''LNAME'', JStr (js ''B'')),
                              (js ''COMPANY'', JStr (js ''C'')),
                              (js ''JOBTITLE'', JStr (js ''D''))])])],
         statusCode = 200, headers = [],
         sent = Some \<lparr>rstatus = 200, rheaders = [],
                      rbody = JObj [(js ''message'', JStr (js ''Registration successful'')),
                                    (js ''join_url'', JStr (js ''https://zoom.us/w/1''))]\<rparr>\<rparr>)"
    by (simp add: register_Base_valid [OF demo_valid] run_defs
        demo_env_def zoom_ok_def member_exists_def ok_def demo_parse_def)
qed

subsection \<open>C2: one response in the base variant\<close>

text \<open>
  Claim C2. Every invocation of the base variant sends exactly one HTTP response:
  after registrant creation succeeds it responds 200 once, and the outcome of the
  list synchronization that follows gives the caller no further response.

  The second half holds: once the registrant is created the response is the 200
  (\<open>base_answers_200\<close>), and the response never depends on what the list replies
  (\<open>base_response_list_independent\<close>). The first half fails on a request whose email
  does not convert to a string: the base variant tests the pattern outside its try
  block, the conversion throws, and the invocation ends rejected with no response
  (\<open>base_no_response_iff\<close>). The extended variant catches the same error in its outer
  catch and answers 500. The theorem runs both variants on such a request.
\<close>

theorem base_unconvertible_email_unanswered:
  "field object_email_request ''email'' = JObj [(js ''toString'', JNum (js ''1''))]
   \<and> register Base demo_parse demo_env object_email_request fresh =
       (Inl (TypeError (js ''Cannot convert object to primitive value'')), fresh)
   \<and> response_of (register Base demo_parse demo_env object_email_request fresh) = None
   \<and> response_of (register Extended demo_parse demo_env object_email_request fresh) =
       Some \<lparr>rstatus = 500, rheaders = [(js ''Access-Control-Allow-Origin'', js ''*'')],
             rbody = JObj [(js ''message'', JStr (js ''Internal Server Error'')),
                           (js ''error'',
                              JStr (js ''TypeError: Cannot convert object to primitive value''))]\<rparr>"
proof -
  have f: "field object_email_request ''email'' = JObj [(js ''toString'', JNum (js ''1''))]"
    by (simp add: object_email_request_def field_def)
  have p: "http_method object_email_request = js ''POST''"
    by (simp add: object_email_request_def demo_request_def)
  have t: "list_all (\<lambda>k. truthy (field object_email_request k)) (required v)" for v
    by (cases v)
       (simp_all add: object_email_request_def demo_request_def required_def field_def)
  have c: "ToString (field object_email_request ''email'') =
      Inl (TypeError (js ''Cannot convert object to primitive value''))"
    by (simp add: f cannot_convert_def)
  have s: "err_toString (TypeError (js ''Cannot convert object to primitive value'')) =
      js ''TypeError: Cannot convert object to primitive value''"
    by (simp add: err_toString_def TypeError_def js_append)
  show ?thesis
    using base_email_throws [OF p t c, of demo_parse demo_env]
      extended_email_throws [OF p t c, of demo_parse demo_env]
    by (simp add: f s response_of_def fresh_def)
qed

subsection \<open>C3: what an error response carries\<close>

text \<open>
  Claim C3. For every provider-originated failure (token acquisition, registrant
  creation, list synchronization) the error response's \<^verbatim>\<open>errorAt\<close> names the failing
  stage and its \<^verbatim>\<open>info\<close> is the provider's body decoded as JSON for its \<^verbatim>\<open>message\<close>,
  or the raw text; in particular for a token-fetch failure.

  The registrant and list stages assign \<^verbatim>\<open>type\<close> and \<^verbatim>\<open>text\<close> to the error they
  throw (\<open>error_body_tagged\<close>); \<open>getZoomAccessToken\<close> throws a plain error with the
  body inside its message, which the catch block does not read
  (\<open>error_body_new_Error\<close>). The theorem runs both variants on a refused token request:
  both members of the response are undefined.
\<close>

theorem token_failure_untagged:
  "response_of (register Base demo_parse (demo_env\<lparr>token_reply := token_denied\<rparr>)
      demo_request fresh) =
     Some \<lparr>rstatus = 500, rheaders = [],
           rbody = JObj [(js ''message'', JStr (js ''Internal Server Error'')),
                         (js ''info'', JUndefined),
                         (js ''errorAt'', JUndefined)]\<rparr>
   \<and> response_of (register Extended demo_parse (demo_env\<lparr>token_reply := token_denied\<rparr>)
        demo_request fresh) =
       Some \<lparr>rstatus = 500, rheaders = [(js ''Access-Control-Allow-Origin'', js ''*'')],
             rbody = JObj [(js ''message'', JStr (js ''Internal Server Error'')),
                           (js ''info'', JUndefined),
                           (js ''errorAt'', JUndefined)]\<rparr>"
  by (simp add: register_Base_valid [OF demo_valid] register_Extended_valid [OF demo_valid]
      run_defs error_body_new_Error)

subsection \<open>C4: a missing required field\<close>

text \<open>
  Claim C4. A POST request in which a required field of the variant is missing is
  answered with status 500 and the body \<^verbatim>\<open>{message: "Request Error", info: "Missing
  required fields", errorAt: "requestBody"}\<close>, and no outbound call is issued.

  The check is \<^verbatim>\<open>!field\<close>, so the theorem covers a field that is absent and one
  whose value is falsy.
\<close>

theorem missing_field_rejected:
  assumes "http_method req = js ''POST''" and "k \<in> set (required v)"
    and "body req (js k) = None \<or> \<not> truthy (field req k)"
  shows "response_of (register v parse e req fresh) =
           Some \<lparr>rstatus = 500, rheaders = [],
                 rbody = JObj [(js ''message'', JStr (js ''Request Error'')),
                               (js ''info'', JStr (js ''Missing required fields'')),
                               (js ''errorAt'', JStr (js ''requestBody''))]\<rparr>
         \<and> calls_of (register v parse e req fresh) = []"
proof -
  from assms(3) have falsy: "\<not> truthy (field req k)"
    by (auto simp add: field_def)
  show ?thesis
  proof (cases v)
    case Base
    with assms(1,2) falsy show ?thesis
      by (auto simp add: register_def register_base_def required_def missing_fields_body_def
          run_defs)
  next
    case Extended
    with assms(1,2) falsy show ?thesis
      by (auto simp add: register_def register_extended_def extended_callback_def
          required_def missing_fields_body_def run_defs)
  qed
qed

theorem missing_field_rejected_witness:
  "http_method no_event_request = js ''POST'' \<and> ''eventId'' \<in> set (required Base)
   \<and> body no_event_request (js ''eventId'') = None
   \<and> response_of (register Base demo_parse demo_env no_event_request fresh) =
       Some \<lparr>rstatus = 500, rheaders = [],
             rbody = JObj [(js ''message'', JStr (js ''Request Error'')),
                           (js ''info'', JStr (js ''Missing required fields'')),
                           (js ''errorAt'', JStr (js ''requestBody''))]\<rparr>
   \<and> calls_of (register Base demo_parse demo_env no_event_request fresh) = []"
  using missing_field_rejected [where req = no_event_request and k = "''eventId''"
      and v = Base and parse = demo_parse and e = demo_env]
  by (simp add: no_event_request_def demo_request_def required_def)

subsection \<open>C5: a malformed email\<close>



subsection \<open>C6: a failed stage stops the later ones\<close>

text \<open>
  Claim C6. A failure at an earlier stage prevents all later outbound calls: after a
  token-fetch failure no registrant-creation or list-sync call is issued; after a
  registrant-creation failure no list-sync call is issued and the 500 response's
  \<^verbatim>\<open>errorAt\<close> names the webinar stage.

  The calls are as claimed. The tag is not: the handler tags the error it throws for a
  registrant reply that is not 2xx, and nothing else. When the registrant fetch rejects,
  \<^verbatim>\<open>errorAt\<close> is the \<^verbatim>\<open>type\<close> node-fetch gives its own error, as this theorem
  shows on a request whose registrant call gets no reply.
\<close>

theorem registrant_no_reply_tagged_system:
  "map stage_of (calls_of (register Base demo_parse (demo_env\<lparr>zoom_reply := NoReply\<rparr>)
      demo_request fresh)) = [TokenStage, WebinarStage]
   \<and> response_of (register Base demo_parse (demo_env\<lparr>zoom_reply := NoReply\<rparr>)
        demo_request fresh) =
       Some \<lparr>rstatus = 500, rheaders = [],
             rbody = JObj [(js ''message'', JStr (js ''Internal Server Error'')),
                           (js ''info'', JUndefined),
                           (js ''errorAt'', JStr (js ''system''))]\<rparr>
   \<and> response_of (register Extended demo_parse (demo_env\<lparr>zoom_reply := NoReply\<rparr>)
        demo_request fresh) =
       Some \<lparr>rstatus = 500, rheaders = [(js ''Access-Control-Allow-Origin'', js ''*'')],
             rbody = JObj [(js ''message'', JStr (js ''Internal Server Error'')),
                           (js ''info'', JUndefined),
                           (js ''errorAt'', JStr (js ''system''))]\<rparr>"
  by (simp add: register_Base_valid [OF demo_valid] register_Extended_valid [OF demo_valid]
      run_defs error_body_FetchError demo_env_def)

text \<open>
  Claim C6, as amended. For a request that passes the body checks, after a token-fetch
  failure no registrant-creation or list-sync call is issued; after a
  registrant-creation failure (the call cannot be made, the fetch rejects, the reply is
  not 2xx, or the 2xx reply is not JSON) no list-sync call is issued and the response is
  a 500; its \<^verbatim>\<open>errorAt\<close> is \<^verbatim>\<open>zoom\<close> when the reply is not 2xx.
\<close>

theorem failure_stops_later_stages:
  assumes "valid v req"
  shows "(token_result parse e = Inl err \<longrightarrow>
            calls_of (register v parse e req fresh) = [TokenRequest])
         \<and> (token_result parse e = Inr tok
              \<and> registrant_headers (field req ''eventId'') tok = Inl err \<longrightarrow>
            calls_of (register v parse e req fresh) = [TokenRequest]
            \<and> response_of (register v parse e req fresh) =
                Some \<lparr>rstatus = 500, rheaders = own_headers v,
                      rbody = JObj [(js ''message'', JStr (js ''Internal Server Error'')),
                                    (js ''info'', JUndefined),
                                    (js ''errorAt'', JUndefined)]\<rparr>)
         \<and> (token_result parse e = Inr tok
              \<and> registrant_headers (field req ''eventId'') tok = Inr (url, authorization)
              \<and> zoom_reply e = NoReply \<longrightarrow>
            map stage_of (calls_of (register v parse e req fresh)) =
              [TokenStage, WebinarStage]
            \<and> response_of (register v parse e req fresh) =
                Some \<lparr>rstatus = 500, rheaders = own_headers v,
                      rbody = JObj [(js ''message'', JStr (js ''Internal Server Error'')),
                                    (js ''info'', JUndefined),
                                    (js ''errorAt'', JStr (js ''system''))]\<rparr>)
         \<and> (token_result parse e = Inr tok
              \<and> registrant_headers (field req ''eventId'') tok = Inr (url, authorization)
              \<and> zoom_reply e = Reply zr \<and> \<not> ok zr \<longrightarrow>
            map stage_of (calls_of (register v parse e req fresh)) =
              [TokenStage, WebinarStage]
            \<and> response_of (register v parse e req fresh) =
                Some \<lparr>rstatus = 500, rheaders = own_headers v,
                      rbody = JObj [(js ''message'', JStr (js ''Internal Server Error'')),
                                    (js ''info'', decoded_message parse (body_text zr)),
                                    (js ''errorAt'', JStr (js ''zoom''))]\<rparr>)
         \<and> (token_result parse e = Inr tok
              \<and> registrant_headers (field req ''eventId'') tok = Inr (url, authorization)
              \<and> zoom_reply e = Reply zr \<and> ok zr \<and> parse (body_text zr) = None \<longrightarrow>
            map stage_of (calls_of (register v parse e req fresh)) =
              [TokenStage, WebinarStage]
            \<and> response_of (register v parse e req fresh) =
                Some \<lparr>rstatus = 500, rheaders = own_headers v,
                      rbody = JObj [(js ''message'', JStr (js ''Internal Server Error'')),
                                    (js ''info'', JUndefined),
                                    (js ''errorAt'', JStr (js ''invalid-json''))]\<rparr>)"
  using stops_at_token [OF assms, of parse e err]
    stops_before_registrant [OF assms, of parse e tok err]
    stops_at_registrant_no_reply [OF assms, of parse e tok url authorization]
    stops_at_registrant_not_ok [OF assms, of parse e tok url authorization zr]
    stops_at_registrant_not_json [OF assms, of parse e tok url authorization zr]
  by blast

theorem failure_stops_later_stages_witness:
  "valid Extended demo_request
   \<and> token_result demo_parse (demo_env\<lparr>token_reply := token_denied\<rparr>) =
       Inl (new_Error (js ''Failed to fetch Zoom access token: {\"reason\":\"Invalid client_id or client_secret\",\"error\":\"invalid_client\"}''))
   \<and> calls_of (register Extended demo_parse
         (demo_env\<lparr>token_reply := token_denied\<rparr>) demo_request fresh) = [TokenRequest]
   \<and> token_result demo_parse (demo_env\<lparr>zoom_reply := zoom_not_found\<rparr>) =
       Inr (JStr (js ''t0k''))
   \<and> registrant_headers (field demo_request ''eventId'') (JStr (js ''t0k'')) =
       Inr (js ''https://api.zoom.us/v2/webinars/123/registrants'', js ''Bearer t0k'')
   \<and> zoom_reply (demo_env\<lparr>zoom_reply := zoom_not_found\<rparr>) = zoom_not_found
   \<and> map stage_of (calls_of (register Extended demo_parse
         (demo_env\<lparr>zoom_reply := zoom_not_found\<rparr>) demo_request fresh)) =
       [TokenStage, WebinarStage]
   \<and> response_of (register Extended demo_parse
         (demo_env\<lparr>zoom_reply := zoom_not_found\<rparr>) demo_request fresh) =
       Some \<lparr>rstatus = 500, rheaders = [(js ''Access-Control-Allow-Origin'', js ''*'')],
             rbody = JObj [(js ''message'', JStr (js ''Internal Server Error'')),
                           (js ''info'', JStr (js ''Webinar does not exist.'')),
                           (js ''errorAt'', JStr (js ''zoom''))]\<rparr>"
proof -
  let ?e1 = "demo_env\<lparr>token_reply := token_denied\<rparr>"
  let ?e2 = "demo_env\<lparr>zoom_reply := zoom_not_found\<rparr>"
  let ?zr = "\<lparr>status = 404,
              body_text = js ''{\"code\":3001,\"message\":\"Webinar does not exist.\"}''\<rparr>"
  let ?err = "new_Error (js ''Failed to fetch Zoom access token: {\"reason\":\"Invalid client_id or client_secret\",\"error\":\"invalid_client\"}'')"
  have v: "valid Extended demo_request" by (rule demo_valid)
  have t1: "token_result demo_parse ?e1 = Inl ?err"
    by (rule demo_token_denied) simp
  have t2: "token_result demo_parse ?e2 = Inr (JStr (js ''t0k''))"
    by (simp add: demo_env_def)
  have h: "registrant_headers (field demo_request ''eventId'') (JStr (js ''t0k'')) =
      Inr (js ''https://api.zoom.us/v2/webinars/123/registrants'', js ''Bearer t0k'')"
    by simp
  have z: "zoom_reply ?e2 = Reply ?zr" "\<not> ok ?zr"
    by (simp_all add: zoom_not_found_def ok_def)
  have d: "decoded_message demo_parse (body_text ?zr) = JStr (js ''Webinar does not exist.'')"
    by (simp add: decoded_message_def demo_parse_def)
  from failure_stops_later_stages [OF v, where parse = demo_parse and e = ?e1
      and err = ?err] t1
  have a: "calls_of (register Extended demo_parse ?e1 demo_request fresh) = [TokenRequest]"
    by blast
  from failure_stops_later_stages [OF v, where parse = demo_parse and e = ?e2
      and tok = "JStr (js ''t0k'')" and zr = ?zr
      and url = "js ''https://api.zoom.us/v2/webinars/123/registrants''"
      and authorization = "js ''Bearer t0k''"] t2 h z
  have b: "map stage_of (calls_of (register Extended demo_parse ?e2 demo_request fresh)) =
      [TokenStage, WebinarStage]
    \<and> response_of (register Extended demo_parse ?e2 demo_request fresh) =
       Some \<lparr>rstatus = 500, rheaders = own_headers Extended,
             rbody = JObj [(js ''message'', JStr (js ''Internal Server Error'')),
                           (js ''info'', decoded_message demo_parse (body_text ?zr)),
                           (js ''errorAt'', JStr (js ''zoom''))]\<rparr>"
    by blast
  from v t1 t2 h z a b d show ?thesis
    by (simp add: own_headers_def zoom_not_found_def)
qed

subsection \<open>C7: the join URL of a successful registration\<close>

text \<open>
  Claim C7. When the token fetch, the registrant creation and every configured
  list-sync call succeed, the handler responds with status 200 and the body
  \<^verbatim>\<open>{message: "Registration successful", join_url: v}\<close>, where \<^verbatim>\<open>v\<close> is the
  \<^verbatim>\<open>join_url\<close> of the webinar provider's reply, unmodified.

  The stages succeed when the token helper returns, the registrant call is made and
  answered by a 2xx reply with a JSON body that has members, and every list of the
  variant answers with a 2xx reply.
\<close>

theorem success_returns_join_url:
  assumes "valid v req"
    and "token_result parse e = Inr tok"
    and "registrant_headers (field req ''eventId'') tok = Inr (url, authorization)"
    and "zoom_reply e = Reply zr" and "ok zr"
    and "parse (body_text zr) = Some zoomData"
    and "get_prop zoomData (js ''join_url'') = Inr u"
    and "list_all (\<lambda>l. succeeded (list_reply e l)) (lists v)"
  shows "response_of (register v parse e req fresh) =
           Some \<lparr>rstatus = 200, rheaders = own_headers v,
                 rbody = JObj [(js ''message'', JStr (js ''Registration successful'')),
                               (js ''join_url'', u)]\<rparr>
         \<and> fst (register v parse e req fresh) = Inr ()"
proof -
  from assms(3) obtain s t where c: "ToString (field req ''eventId'') = Inr s"
    "ToString tok = Inr t" "legal_header_value (bearer t)"
    by (auto simp add: registrant_headers_Inr_iff)
  show ?thesis
  proof (cases v)
    case Base
    with assms(1) have "valid Base req" by simp
    with assms(2,4-) c show ?thesis
      by (cases "mailchimp_reply e")
         (simp_all add: Base register_Base_valid run_defs own_headers_def lists_def
            list_reply_def)
  next
    case Extended
    with assms(1) have "valid Extended req" by simp
    with assms(2,4-) c show ?thesis
      by (cases "mailchimp_reply e"; cases "mailchimp2_reply e")
         (simp_all add: Extended register_Extended_valid run_defs own_headers_def lists_def
            list_reply_def)
  qed
qed

theorem success_returns_join_url_witness:
  "valid Extended demo_request
   \<and> token_result demo_parse demo_env = Inr (JStr (js ''t0k''))
   \<and> registrant_headers (field demo_request ''eventId'') (JStr (js ''t0k'')) =
       Inr (js ''https://api.zoom.us/v2/webinars/123/registrants'', js ''Bearer t0k'')
   \<and> zoom_reply demo_env = zoom_ok
   \<and> list_all (\<lambda>l. succeeded (list_reply demo_env l)) (lists Extended)
   \<and> response_of (register Extended demo_parse demo_env demo_request fresh) =
       Some \<lparr>rstatus = 200, rheaders = [(js ''Access-Control-Allow-Origin'', js ''*'')],
             rbody = JObj [(js ''message'', JStr (js ''Registration successful'')),
                           (js ''join_url'', JStr (js ''https://zoom.us/w/1''))]\<rparr>
   \<and> fst (register Extended demo_parse demo_env demo_request fresh) = Inr ()"
proof -
  let ?zr = "\<lparr>status = 201, body_text = js ''{\"join_url\":\"https://zoom.us/w/1\"}''\<rparr>"
  let ?zd = "JObj [(js ''join_url'', JStr (js ''https://zoom.us/w/1''))]"
  have v: "valid Extended demo_request" by (rule demo_valid)
  have t: "token_result demo_parse demo_env = Inr (JStr (js ''t0k''))"
    by (simp add: demo_env_def)
  have h: "registrant_headers (field demo_request ''eventId'') (JStr (js ''t0k'')) =
      Inr (js ''https://api.zoom.us/v2/webinars/123/registrants'', js ''Bearer t0k'')"
    by simp
  have z: "zoom_reply demo_env = Reply ?zr" "ok ?zr"
    by (simp_all add: demo_env_def zoom_ok_def ok_def)
  have p: "demo_parse (body_text ?zr) = Some ?zd"
    by (simp add: demo_parse_def)
  have g: "get_prop ?zd (js ''join_url'') = Inr (JStr (js ''https://zoom.us/w/1''))" by simp
  have l: "list_all (\<lambda>l. succeeded (list_reply demo_env l)) (lists Extended)"
    by (simp add: lists_def list_reply_def demo_env_def list_ok_def ok_def)
  from success_returns_join_url [OF v t h z p g l] v t h z l show ?thesis
    by (simp add: own_headers_def zoom_ok_def)
qed

subsection \<open>C8: the region sent downstream\<close>

text \<open>
  Claim C8. In the extended variant, for a valid request, the region sent to the
  webinar provider (as \<^verbatim>\<open>country\<close>) and to both lists (as the \<^verbatim>\<open>REGION\<close> merge
  field) is \<^verbatim>\<open>"US"\<close> when the request's region is exactly \<^verbatim>\<open>"United States"\<close> and the
  request's region otherwise; no other field is changed.

  The theorem: every call that is issued carries the registrant or member object built
  from the request's own values and that region; and when the token is there, the
  registrant call is made and answered by a 2xx reply with a JSON body, and the first
  list replies, the calls are the four listed.
\<close>

theorem region_normalized:
  assumes "valid Extended req"
  shows "let region = (if field req ''region'' = JStr (js ''United States'')
                       then JStr (js ''US'') else field req ''region'');
             registrant =
               JObj [(js ''email'', field req ''email''),
                     (js ''first_name'', field req ''firstName''),
                     (js ''last_name'', field req ''lastName''),
                     (js ''org'', field req ''company''),
                     (js ''city'', field req ''city''),
                     (js ''country'', region),
                     (js ''zip'', field req ''zipCode''),
                     (js ''state'', field req ''state''),
                     (js ''phone'', field req ''phone''),
                     (js ''job_title'', field req ''jobTitle'')];
             member =
               JObj [(js ''email_address'', field req ''email''),
                     (js ''status'', JStr (js ''subscribed'')),
                     (js ''status_if_new'', JStr (js ''subscribed'')),
                     (js ''merge_fields'',
                        JObj [(js ''FNAME'', field req ''firstName''),
                              (js ''LNAME'', field req ''lastName''),
                              (js ''COMPANY'', field req ''company''),
                              (js ''JOBTITLE'', field req ''jobTitle''),
                              (js ''CITY'', field req ''city''),
                              (js ''PHONE'', field req ''phone''),
                              (js ''STATE'', field req ''state''),
                              (js ''ZIPCODE'', field req ''zipCode''),
                              (js ''REGION'', region),
                              (js ''LEADSOURCE'', JStr (js ''WEBSITE EVENT REGISTRATION''))]),
                     (js ''tag'', JStr (js ''ALUMNI''))]
         in list_all (carries registrant member)
              (calls_of (register Extended parse e req fresh))
            \<and> (token_result parse e = Inr tok
                 \<and> registrant_headers (field req ''eventId'') tok = Inr (url, authorization)
                 \<and> zoom_reply e = Reply zr \<and> ok zr
                 \<and> parse (body_text zr) = Some zoomData \<and> mailchimp_reply e = Reply m1 \<longrightarrow>
               calls_of (register Extended parse e req fresh) =
                 [TokenRequest,
                  RegistrantRequest url authorization registrant,
                  MemberRequest MAILCHIMP_LIST_ID member,
                  MemberRequest MAILCHIMP_LIST_ID_2 member])"
  unfolding Let_def calls_of_def register_Extended_valid [OF assms]
  using try_extended_carries try_extended_calls
  by (simp add: member_ext_def)

theorem region_normalized_witness:
  "valid Extended demo_request
   \<and> field demo_request ''region'' = JStr (js ''United States'')
   \<and> token_result demo_parse demo_env = Inr (JStr (js ''t0k''))
   \<and> registrant_headers (field demo_request ''eventId'') (JStr (js ''t0k'')) =
       Inr (js ''https://api.zoom.us/v2/webinars/123/registrants'', js ''Bearer t0k'')
   \<and> zoom_reply demo_env = zoom_ok \<and> mailchimp_reply demo_env = list_ok
   \<and> calls_of (register Extended demo_parse demo_env demo_request fresh) =
       [TokenRequest,
        RegistrantRequest (js ''https://api.zoom.us/v2/webinars/123/registrants'')
          (js ''Bearer t0k'')
          (JObj [(js ''email'', JStr (js ''a@b.com'')),
                 (js ''first_name'', JStr (js ''A'')),
                 (js ''last_name'', JStr (js ''B'')),
                 (js ''org'', JStr (js ''C'')),
                 (js ''city'', JStr (js ''Austin'')),
                 (js ''country'', JStr (js ''US'')),
                 (js ''zip'', JStr (js ''73301'')),
                 (js ''state'', JStr (js ''TX'')),
                 (js ''phone'', JStr (js ''5550100'')),
                 (js ''job_title'', JStr (js ''D''))]),
        MemberRequest MAILCHIMP_LIST_ID
          (JObj [(js ''email_address'', JStr (js ''a@b.com'')),
                 (js ''status'', JStr (js ''subscribed'')),
                 (js ''status_if_new'', JStr (js ''subscribed'')),
                 (js ''merge_fields'',
                    JObj [(js ''FNAME'', JStr (js ''A'')),
                          (js ''LNAME'', JStr (js ''B'')),
                          (js ''COMPANY'', JStr (js ''C'')),
                          (js ''JOBTITLE'', JStr (js ''D'')),
                          (js ''CITY'', JStr (js ''Austin'')),
                          (js ''PHONE'', JStr (js ''5550100'')),
                          (js ''STATE'', JStr (js ''TX'')),
                          (js ''ZIPCODE'', JStr (js ''73301'')),
                          (js ''REGION'', JStr (js ''US'')),
                          (js ''LEADSOURCE'', JStr (js ''WEBSITE EVENT REGISTRATION''))]),
                 (js ''tag'', JStr (js ''ALUMNI''))]),
        MemberRequest MAILCHIMP_LIST_ID_2
          (JObj [(js ''email_address'', JStr (js ''a@b.com'')),
                 (js ''status'', JStr (js ''subscribed'')),
                 (js ''status_if_new'', JStr (js ''subscribed'')),
                 (js ''merge_fields'',
                    JObj [(js ''FNAME'', JStr (js ''A'')),
                          (js ''LNAME'', JStr (js ''B'')),
                          (js ''COMPANY'', JStr (js ''C'')),
                          (js ''JOBTITLE'', JStr (js ''D'')),
                          (js ''CITY'', JStr (js ''Austin'')),
                          (js ''PHONE'', JStr (js ''5550100'')),
                          (js ''STATE'', JStr (js ''TX'')),
                          (js ''ZIPCODE'', JStr (js ''73301'')),
                          (js ''REGION'', JStr (js ''US'')),
                          (js ''LEADSOURCE'', JStr (js ''WEBSITE EVENT REGISTRATION''))]),
                 (js ''tag'', JStr (js ''ALUMNI''))])]"
proof -
  let ?zr = "\<lparr>status = 201, body_text = js ''{\"join_url\":\"https://zoom.us/w/1\"}''\<rparr>"
  let ?zd = "JObj [(js ''join_url'', JStr (js ''https://zoom.us/w/1''))]"
  let ?m1 = "\<lparr>status = 200, body_text = js ''{}''\<rparr>"
  have v: "valid Extended demo_request" by (rule demo_valid)
  have t: "token_result demo_parse demo_env = Inr (JStr (js ''t0k''))"
    by (simp add: demo_env_def)
  have h: "registrant_headers (field demo_request ''eventId'') (JStr (js ''t0k'')) =
      Inr (js ''https://api.zoom.us/v2/webinars/123/registrants'', js ''Bearer t0k'')"
    by simp
  have z: "zoom_reply demo_env = Reply ?zr" "ok ?zr" "mailchimp_reply demo_env = Reply ?m1"
    by (simp_all add: demo_env_def zoom_ok_def list_ok_def ok_def)
  have p: "demo_parse (body_text ?zr) = Some ?zd"
    by (simp add: demo_parse_def)
  from region_normalized [OF v, where parse = demo_parse and e = demo_env
      and tok = "JStr (js ''t0k'')" and zr = ?zr and zoomData = ?zd and ?m1.0 = ?m1
      and url = "js ''https://api.zoom.us/v2/webinars/123/registrants''"
      and authorization = "js ''Bearer t0k''"]
    t h z p
  have "calls_of (register Extended demo_parse demo_env demo_request fresh) =
       [TokenRequest,
        RegistrantRequest (js ''https://api.zoom.us/v2/webinars/123/registrants'')
          (js ''Bearer t0k'')
          (JObj [(js ''email'', JStr (js ''a@b.com'')),
                 (js ''first_name'', JStr (js ''A'')),
                 (js ''last_name'', JStr (js ''B'')),
                 (js ''org'', JStr (js ''C'')),
                 (js ''city'', JStr (js ''Austin'')),
                 (js ''country'', JStr (js ''US'')),
                 (js ''zip'', JStr (js ''73301'')),
                 (js ''state'', JStr (js ''TX'')),
                 (js ''phone'', JStr (js ''5550100'')),
                 (js ''job_title'', JStr (js ''D''))]),
        MemberRequest MAILCHIMP_LIST_ID
          (JObj [(js ''email_address'', JStr (js ''a@b.com'')),
                 (js ''status'', JStr (js ''subscribed'')),
                 (js ''status_if_new'', JStr (js ''subscribed'')),
                 (js ''merge_fields'',
                    JObj [(js ''FNAME'', JStr (js ''A'')),
                          (js ''LNAME'', JStr (js ''B'')),
                          (js ''COMPANY'', JStr (js ''C'')),
                          (js ''JOBTITLE'', JStr (js ''D'')),
                          (js ''CITY'', JStr (js ''Austin'')),
                          (js ''PHONE'', JStr (js ''5550100'')),
                          (js ''STATE'', JStr (js ''TX'')),
                          (js ''ZIPCODE'', JStr (js ''73301'')),
                          (js ''REGION'', JStr (js ''US'')),
                          (js ''LEADSOURCE'', JStr (js ''WEBSITE EVENT REGISTRATION''))]),
                 (js ''tag'', JStr (js ''ALUMNI''))]),
        MemberRequest MAILCHIMP_LIST_ID_2
          (JObj [(js ''email_address'', JStr (js ''a@b.com'')),
                 (js ''status'', JStr (js ''subscribed'')),
                 (js ''status_if_new'', JStr (js ''subscribed'')),
                 (js ''merge_fields'',
                    JObj [(js ''FNAME'', JStr (js ''A'')),
                          (js ''LNAME'', JStr (js ''B'')),
                          (js ''COMPANY'', JStr (js ''C'')),
                          (js ''JOBTITLE'', JStr (js ''D'')),
                          (js ''CITY'', JStr (js ''Austin'')),
                          (js ''PHONE'', JStr (js ''5550100'')),
                          (js ''STATE'', JStr (js ''TX'')),
                          (js ''ZIPCODE'', JStr (js ''73301'')),
                          (js ''REGION'', JStr (js ''US'')),
                          (js ''LEADSOURCE'', JStr (js ''WEBSITE EVENT REGISTRATION''))]),
                 (js ''tag'', JStr (js ''ALUMNI''))])]"
    unfolding Let_def by simp
  with v t h z show ?thesis
    by (simp add: zoom_ok_def list_ok_def)
qed

subsection \<open>C9: both lists fail\<close>

text \<open>
  Claim C9. In the extended variant the second list's failure is checked before the
  first list's: when both lists fail, the 500 response's \<^verbatim>\<open>errorAt\<close> names the second
  list.

  Both lists are reached when the token is there and the registrant call is made and
  answered by a 2xx reply with a JSON body; they fail when their replies are not 2xx.
\<close>

theorem second_list_checked_first:
  assumes "valid Extended req"
    and "token_result parse e = Inr tok"
    and "registrant_headers (field req ''eventId'') tok = Inr (url, authorization)"
    and "zoom_reply e = Reply zr" and "ok zr" and "parse (body_text zr) = Some zoomData"
    and "mailchimp_reply e = Reply m1" and "\<not> ok m1"
    and "mailchimp2_reply e = Reply m2" and "\<not> ok m2"
  shows "response_of (register Extended parse e req fresh) =
           Some \<lparr>rstatus = 500, rheaders = [(js ''Access-Control-Allow-Origin'', js ''*'')],
                 rbody = JObj [(js ''message'', JStr (js ''Internal Server Error'')),
                               (js ''info'', decoded_message parse (body_text m2)),
                               (js ''errorAt'', JStr (js ''mailchimp 2''))]\<rparr>"
proof -
  from assms(3) obtain s t where "ToString (field req ''eventId'') = Inr s"
    and "ToString tok = Inr t" and "legal_header_value (bearer t)"
    by (auto simp add: registrant_headers_Inr_iff)
  with assms(2,4-) show ?thesis
    by (simp add: register_Extended_valid [OF assms(1)] run_defs error_body_tagged
        extended_guard)
qed

theorem second_list_checked_first_witness:
  "valid Extended demo_request
   \<and> token_result demo_parse
       (demo_env\<lparr>mailchimp_reply := list_down, mailchimp2_reply := member_exists\<rparr>) =
       Inr (JStr (js ''t0k''))
   \<and> registrant_headers (field demo_request ''eventId'') (JStr (js ''t0k'')) =
       Inr (js ''https://api.zoom.us/v2/webinars/123/registrants'', js ''Bearer t0k'')
   \<and> zoom_reply (demo_env\<lparr>mailchimp_reply := list_down, mailchimp2_reply := member_exists\<rparr>) =
       zoom_ok
   \<and> response_of (register Extended demo_parse
         (demo_env\<lparr>mailchimp_reply := list_down, mailchimp2_reply := member_exists\<rparr>)
         demo_request fresh) =
       Some \<lparr>rstatus = 500, rheaders = [(js ''Access-Control-Allow-Origin'', js ''*'')],
             rbody = JObj [(js ''message'', JStr (js ''Internal Server Error'')),
                           (js ''info'', JStr (js ''{\"title\":\"Member Exists\",\"status\":400}'')),
                           (js ''errorAt'', JStr (js ''mailchimp 2''))]\<rparr>"
proof -
  let ?e = "demo_env\<lparr>mailchimp_reply := list_down, mailchimp2_reply := member_exists\<rparr>"
  let ?zr = "\<lparr>status = 201, body_text = js ''{\"join_url\":\"https://zoom.us/w/1\"}''\<rparr>"
  let ?zd = "JObj [(js ''join_url'', JStr (js ''https://zoom.us/w/1''))]"
  let ?m1 = "\<lparr>status = 503, body_text = js ''Service Unavailable''\<rparr>"
  let ?m2 = "\<lparr>status = 400,
              body_text = js ''{\"title\":\"Member Exists\",\"status\":400}''\<rparr>"
  have v: "valid Extended demo_request" by (rule demo_valid)
  have t: "token_result demo_parse ?e = Inr (JStr (js ''t0k''))"
    by (simp add: demo_env_def)
  have h: "registrant_headers (field demo_request ''eventId'') (JStr (js ''t0k'')) =
      Inr (js ''https://api.zoom.us/v2/webinars/123/registrants'', js ''Bearer t0k'')"
    by simp
  have z: "zoom_reply ?e = Reply ?zr" "ok ?zr"
    by (simp_all add: demo_env_def zoom_ok_def ok_def)
  have p: "demo_parse (body_text ?zr) = Some ?zd"
    by (simp add: demo_parse_def)
  have l1: "mailchimp_reply ?e = Reply ?m1" "\<not> ok ?m1"
    by (simp_all add: list_down_def ok_def)
  have l2: "mailchimp2_reply ?e = Reply ?m2" "\<not> ok ?m2"
    by (simp_all add: member_exists_def ok_def)
  have d: "decoded_message demo_parse (body_text ?m2) =
      JStr (js ''{\"title\":\"Member Exists\",\"status\":400}'')"
    by (simp add: decoded_message_def demo_parse_def)
  from second_list_checked_first [OF v t h z p l1 l2] v t h z d show ?thesis
    by (simp add: zoom_ok_def)
qed

subsection \<open>C10: the identifier\<close>

text \<open>
  Claim C10. Two POST requests that differ only in the value or the presence of
  \<^verbatim>\<open>identifier\<close>, with the same provider replies, get the same HTTP response and
  cause the same outbound calls: the name is read from the body and never used.

  The theorem holds for every method, and for the whole outcome of the invocation.
\<close>

theorem identifier_ignored:
  "register v parse e (req\<lparr>body := (body req)(js ''identifier'' := x)\<rparr>) = register v parse e req"
  by (cases v)
     (simp_all add: register_def register_base_def register_extended_def
        extended_callback_def field_def)

theorem identifier_ignored_witness:
  "register Extended demo_parse demo_env
     (demo_request\<lparr>body := (body demo_request)(js ''identifier'' \<mapsto> JStr (js ''abc''))\<rparr>)
     fresh =
   register Extended demo_parse demo_env demo_request fresh
   \<and> register Base demo_parse demo_env
       (demo_request\<lparr>body := (body demo_request)(js ''identifier'' \<mapsto> JStr (js ''abc''))\<rparr>)
       fresh =
     register Base demo_parse demo_env demo_request fresh"
  using identifier_ignored [of Extended demo_parse demo_env demo_request
      "Some (JStr (js ''abc''))"]
    identifier_ignored [of Base demo_parse demo_env demo_request "Some (JStr (js ''abc''))"]
  by simp

end
